theory Spec2Isabelle
  imports Complex_Main "HOL-Library.AList" "HOL-Library.Word"
begin

section \<open>JavaScript values\<close>

text \<open>
  A JavaScript number is an IEEE-754 double: NaN, an infinity or a finite value. A finite
  double is held as the rational that its shortest decimal literal denotes, the one the
  language prints for it: 0.1 is \<open>1 / 10\<close>, 3.4000000000000004 is
  \<open>34000000000000004 / 10000000000000000\<close>; both zeros are \<open>Fin 0\<close>. Distinct doubles
  have distinct literals, in the same order, so comparing two doubles is comparing
  these rationals.
\<close>

datatype number = NaN | NegInf | Fin rat | PosInf

text \<open>\<open>a < b\<close> on numbers: false as soon as one side is NaN.\<close>

fun num_lt :: "number \<Rightarrow> number \<Rightarrow> bool" where
  "num_lt NaN b = False"
| "num_lt a NaN = False"
| "num_lt (Fin a) (Fin b) = (a < b)"
| "num_lt a NegInf = False"
| "num_lt NegInf b = True"
| "num_lt PosInf b = False"
| "num_lt a PosInf = True"

text \<open>\<open>a > b\<close> is \<open>b < a\<close>; \<open>a <= b\<close> is "not \<open>b < a\<close>", and false on NaN.\<close>

definition num_gt :: "number \<Rightarrow> number \<Rightarrow> bool" where
  "num_gt a b = num_lt b a"

definition num_le :: "number \<Rightarrow> number \<Rightarrow> bool" where
  "num_le a b = (a \<noteq> NaN \<and> b \<noteq> NaN \<and> \<not> num_lt b a)"

fun num_sign :: "number \<Rightarrow> rat" where
  "num_sign NaN = 0"
| "num_sign NegInf = - 1"
| "num_sign PosInf = 1"
| "num_sign (Fin a) = sgn a"

text \<open>
  \<open>a * b\<close>: NaN is absorbing, and an infinity times zero is NaN. The product of two
  finite doubles is their exact product rounded to a double (or to an infinity): that
  rounded product belongs to the language runtime and is the parameter \<open>rounded\<close>,
  which takes and gives doubles in the form above.
\<close>

fun num_mul :: "(rat \<Rightarrow> rat \<Rightarrow> number) \<Rightarrow> number \<Rightarrow> number \<Rightarrow> number" where
  "num_mul rounded NaN b = NaN"
| "num_mul rounded a NaN = NaN"
| "num_mul rounded (Fin a) (Fin b) = rounded a b"
| "num_mul rounded a b =
     (let s = num_sign a * num_sign b
      in if s = 0 then NaN else if 0 < s then PosInf else NegInf)"

text \<open>
  The values a JSON request body, a transaction field or a contract state can hold.
  An object is the list of its own properties in insertion order.
\<close>

datatype jsval =
    JUndefined
  | JNull
  | JBool bool
  | JNum number
  | JStr string
  | JArr "jsval list"
  | JObj "(string \<times> jsval) list"

text \<open>Truthiness (\<open>!v\<close> is its negation).\<close>

fun truthy :: "jsval \<Rightarrow> bool" where
  "truthy JUndefined = False"
| "truthy JNull = False"
| "truthy (JBool b) = b"
| "truthy (JNum n) = (n \<noteq> NaN \<and> n \<noteq> Fin 0)"
| "truthy (JStr s) = (s \<noteq> [])"
| "truthy (JArr xs) = True"
| "truthy (JObj ps) = True"

text \<open>
  The coercion to a number that \<open>Number(v)\<close>, \<open>v * c\<close> and a comparison of \<open>v\<close> with a
  number apply. On a string, an array or an object it parses the value's string form;
  that parser belongs to the language runtime and is the parameter \<open>parse\<close>.
\<close>

fun ToNumber :: "(jsval \<Rightarrow> number) \<Rightarrow> jsval \<Rightarrow> number" where
  "ToNumber parse JUndefined = NaN"
| "ToNumber parse JNull = Fin 0"
| "ToNumber parse (JBool b) = (if b then Fin 1 else Fin 0)"
| "ToNumber parse (JNum n) = n"
| "ToNumber parse v = parse v"

section \<open>Configuration (config.js)\<close>

definition MINE_RATE :: number where
  "MINE_RATE = Fin 1000"

definition INITIAL_DIFFICULTY :: number where
  "INITIAL_DIFFICULTY = Fin 3"

record block =
  timestamp :: number
  lastHash :: string
  hash :: string
  difficulty :: number
  nonce :: number
  data :: "jsval list"

definition GENESIS_DATA :: block where
  "GENESIS_DATA =
     \<lparr> timestamp = Fin 1,
       lastHash = ''------'',
       hash = ''hash-one'',
       difficulty = INITIAL_DIFFICULTY,
       nonce = Fin 0,
       data = [] \<rparr>"

definition STARTING_BALANCE :: number where
  "STARTING_BALANCE = Fin 1000"

definition MINING_REWARD :: number where
  "MINING_REWARD = Fin 50"

definition FIXED_GAS_PRICE :: number where
  "FIXED_GAS_PRICE = Fin (1 / 10)"

section \<open>WebAssembly modules and their instantiation\<close>

text \<open>
  What a node's surroundings can answer differently from one moment or one miner to the
  next: the clock that \<open>Date.now()\<close> reads, the bytes that \<open>crypto.randomBytes\<close>
  draws, and the state of the built-in objects of the language (here: which of them,
  by name, have been frozen).
\<close>

record world =
  now :: nat
  randomBytes :: "nat \<Rightarrow> 8 word list"
  frozen :: "string \<Rightarrow> bool"

datatype error = Error string | CompileError | LinkError | RuntimeError | TypeError

text \<open>A call into module code returns a value, throws, or never returns.\<close>

datatype call_outcome = Returned jsval | Threw error | Diverges

text \<open>
  Module code reaches its surroundings only through the functions it imports. An import
  is named by a module name and a field name. What passes between module code and a
  host function is a plain value or a reference to a built-in object, given by its name.
  A host function may read the world. It may also change it, as \<open>Object.freeze\<close>
  does: the model gives what a call into the module returns in the world the call starts
  in, and the world that a host function leaves is given apart, where it is needed. An
  import object is read by property name: the module name gives an object, the field
  name a function of that object. Module code runs against its linked imports. Only
  function imports are modelled.
\<close>

datatype host_value = Primitive jsval | Intrinsic string

type_synonym import_name = "string \<times> string"
type_synonym host_function = "world \<Rightarrow> host_value list \<Rightarrow> host_value"
type_synonym import_object = "string \<rightharpoonup> (string \<rightharpoonup> host_function)"
type_synonym linked_imports = "import_name \<Rightarrow> host_value list \<Rightarrow> host_value"

datatype wasm_export =
    ExportedFunction "linked_imports \<Rightarrow> jsval list \<Rightarrow> call_outcome"
  | ExportedOther

record wasm_module =
  module_imports :: "import_name list"
  module_start :: "linked_imports \<Rightarrow> call_outcome"
  module_exports :: "(string \<times> wasm_export) list"

datatype export_value = Function "jsval list \<Rightarrow> call_outcome" | NotFunction

record wasm_instance =
  exports :: "(string \<times> export_value) list"

definition link :: "world \<Rightarrow> import_object \<Rightarrow> linked_imports" where
  "link w importObject =
     (\<lambda>(moduleName, fieldName) args.
        case importObject moduleName of
          None \<Rightarrow> Primitive JUndefined
        | Some ob \<Rightarrow>
            (case ob fieldName of None \<Rightarrow> Primitive JUndefined | Some host \<Rightarrow> host w args))"

text \<open>
  The imports are read in order: a TypeError when reading the module name on the import
  object gives no object, a LinkError when reading the field name on that object gives
  no function.
\<close>

fun read_imports :: "import_object \<Rightarrow> import_name list \<Rightarrow> error option" where
  "read_imports importObject [] = None"
| "read_imports importObject ((moduleName, fieldName) # rest) =
     (case importObject moduleName of
        None \<Rightarrow> Some TypeError
      | Some ob \<Rightarrow>
          (case ob fieldName of
             None \<Rightarrow> Some LinkError
           | Some host \<Rightarrow> read_imports importObject rest))"

fun instantiate_export :: "linked_imports \<Rightarrow> string \<times> wasm_export \<Rightarrow> string \<times> export_value" where
  "instantiate_export linked (name, ExportedFunction f) = (name, Function (f linked))"
| "instantiate_export linked (name, ExportedOther) = (name, NotFunction)"

text \<open>
  \<open>WebAssembly.instantiate(module, importObject)\<close>: the imports are read; then the
  start function runs; then the exports are handed out. \<open>None\<close> is an instantiation
  that never returns.
\<close>

definition instantiate ::
  "world \<Rightarrow> wasm_module \<Rightarrow> import_object \<Rightarrow> (error + wasm_instance) option" where
  "instantiate w m importObject =
     (case read_imports importObject (module_imports m) of
        Some e \<Rightarrow> Some (Inl e)
      | None \<Rightarrow>
          (case module_start m (link w importObject) of
             Diverges \<Rightarrow> None
           | Threw e \<Rightarrow> Some (Inl e)
           | Returned v \<Rightarrow>
               Some (Inr \<lparr> exports =
                 map (instantiate_export (link w importObject)) (module_exports m) \<rparr>)))"

text \<open>
  The parts of the language runtime that the node's code relies on: the base64 decoder
  of \<open>Buffer.from\<close>, \<open>WebAssembly.compile\<close> (\<open>None\<close> when the bytes are no valid
  module), the number parser of \<open>ToNumber\<close>, the string form of a value that is used
  as a property key, the rounded product of two finite doubles, and what a property
  read finds on \<open>Object.prototype\<close>: for a property name that holds an object (such as
  \<open>constructor\<close>, which holds \<open>Object\<close>), the functions that reading a field name
  on that object gives (such as \<open>isFrozen\<close>).
\<close>

record runtime =
  Buffer_from_base64 :: "string \<Rightarrow> 8 word list"
  WebAssembly_compile :: "8 word list \<Rightarrow> wasm_module option"
  parse_number :: "jsval \<Rightarrow> number"
  ToString :: "jsval \<Rightarrow> string"
  float_times :: "rat \<Rightarrow> rat \<Rightarrow> number"
  Object_prototype :: "string \<rightharpoonup> (string \<rightharpoonup> host_function)"

text \<open>
  An object literal \<open>{ ...own }\<close> used as an import object. A property read finds the
  own property of that name, and otherwise what \<open>Object.prototype\<close>, the prototype of
  every object literal, holds under the name.
\<close>

definition object_literal ::
  "runtime \<Rightarrow> (string \<rightharpoonup> (string \<rightharpoonup> host_function)) \<Rightarrow> import_object" where
  "object_literal rt own =
     (\<lambda>name. case own name of Some ob \<Rightarrow> Some ob | None \<Rightarrow> Object_prototype rt name)"

section \<open>The contract execution helper (runWasmContract)\<close>

text \<open>
  Objects live in a heap, an address being an index into it. A contract document holds
  its code and a reference to its state object (\<open>None\<close>: no state yet).
\<close>

type_synonym obj = "(string \<times> jsval) list"
type_synonym heap = "obj list"

record doc =
  codeWasmBase64 :: string
  state :: "nat option"

record run_result =
  newState :: nat
  usedGas :: number
  result :: jsval

text \<open>\<open>{ ...ref }\<close>: the own properties of the object, none for a missing one.\<close>

definition spread :: "heap \<Rightarrow> nat option \<Rightarrow> obj" where
  "spread h ref = (case ref of None \<Rightarrow> [] | Some a \<Rightarrow> if a < length h then h ! a else [])"

definition alloc :: "heap \<Rightarrow> obj \<Rightarrow> nat \<times> heap" where
  "alloc h ob = (length h, h @ [ob])"

text \<open>\<open>ref.key = v\<close>.\<close>

definition assign :: "heap \<Rightarrow> nat \<Rightarrow> string \<Rightarrow> jsval \<Rightarrow> heap" where
  "assign h a key v = (if a < length h then h[a := AList.update key v (h ! a)] else h)"

text \<open>Every object of \<open>h\<close> is still in \<open>h'\<close>, at its address, as it was.\<close>

definition untouched :: "heap \<Rightarrow> heap \<Rightarrow> bool" where
  "untouched h h' = (take (length h) h' = h)"

definition property_key :: "runtime \<Rightarrow> jsval \<Rightarrow> string" where
  "property_key rt v = (case v of JStr s \<Rightarrow> s | _ \<Rightarrow> ToString rt v)"

text \<open>
  \<open>functionName && typeof instance.exports[functionName] === 'function'\<close>: the
  function to call when the test holds.
\<close>

definition exported_function ::
  "runtime \<Rightarrow> wasm_instance \<Rightarrow> jsval \<Rightarrow> (jsval list \<Rightarrow> call_outcome) option" where
  "exported_function rt inst functionName =
     (if truthy functionName
      then (case map_of (exports inst) (property_key rt functionName) of
              Some (Function f) \<Rightarrow> Some f
            | _ \<Rightarrow> None)
      else None)"

text \<open>
  The result is \<open>None\<close> when the call never returns; otherwise the heap after the call
  with either the error thrown or the object returned.
\<close>

definition runWasmContract ::
  "runtime \<Rightarrow> world \<Rightarrow> heap \<Rightarrow> doc \<Rightarrow> jsval \<Rightarrow> jsval list \<Rightarrow> jsval
     \<Rightarrow> (heap \<times> (error + run_result)) option" where
  "runWasmContract rt w h doc functionName functionArgs gasLimit =
     (let wasmBuffer = Buffer_from_base64 rt (codeWasmBase64 doc);
          gasUsed = 0;
          (newState, h1) = alloc h (spread h (state doc))
      in case WebAssembly_compile rt wasmBuffer of
           None \<Rightarrow> Some (h1, Inl CompileError)
         | Some wasmModule \<Rightarrow>
            (case instantiate w wasmModule (object_literal rt Map.empty) of
               None \<Rightarrow> None
             | Some (Inl e) \<Rightarrow> Some (h1, Inl e)
             | Some (Inr inst) \<Rightarrow>
                (case exported_function rt inst functionName of
                   Some f \<Rightarrow>
                     (let gasUsed = gasUsed + 200 in
                      if num_gt (Fin gasUsed) (ToNumber (parse_number rt) gasLimit)
                      then Some (h1, Inl (Error ''Out of gas before function call''))
                      else (case f functionArgs of
                              Diverges \<Rightarrow> None
                            | Threw e \<Rightarrow> Some (h1, Inl e)
                            | Returned resultVal \<Rightarrow>
                                Some (assign h1 newState ''lastCallResult'' resultVal,
                                      Inr \<lparr> newState = newState, usedGas = Fin gasUsed,
                                            result = resultVal \<rparr>)))
                 | None \<Rightarrow>
                     (let codeSize = length wasmBuffer;
                          gasUsed = gasUsed + of_nat codeSize in
                      if num_gt (Fin gasUsed) (ToNumber (parse_number rt) gasLimit)
                      then Some (h1, Inl (Error ''Out of gas (code size cost too high)''))
                      else Some (h1, Inr \<lparr> newState = newState, usedGas = Fin gasUsed,
                                           result = JNull \<rparr>)))))"

section \<open>The contract routes (index.js)\<close>

text \<open>
  What the routes use from the rest of the node and from outside it: the session keys
  of routes/auth, the wallet's balance scan over the node's chain and its transaction
  builder (which signs, and throws a message when it refuses), the Rust build that
  the deploy route runs in a temporary directory, the base64 encoder of a buffer and
  \<open>encode\<close> of util/codec.
\<close>

record wallet =
  keyPair :: string
  publicKey :: string
  balance :: number

datatype build_result = BuildError string | NoArtifact | Artifact "8 word list"

record services =
  ephemeralKeys :: "string \<rightharpoonup> string"
  calculateBalance :: "string \<Rightarrow> number"
  createTransaction :: "wallet \<Rightarrow> string \<Rightarrow> number \<Rightarrow> string + obj"
  cargo_build :: "string \<Rightarrow> build_result"
  Buffer_toString_base64 :: "8 word list \<Rightarrow> string"
  encode :: "string \<Rightarrow> string"

record user =
  userId :: string
  walletAddress :: string

text \<open>
  What a route does with the wallet, the transaction pool and the peers besides
  answering, in the order it does it. (Its work in the temporary build directory is
  within \<open>cargo_build\<close>.)
\<close>

datatype effect =
    CreateTransaction wallet string number
  | SetTransaction obj
  | BroadcastTransaction obj

text \<open>The answers of the two routes, one constructor for each \<open>res.json\<close> of the source.\<close>

datatype reply =
    ReLoginRequired
  | NoRustCode
  | InvalidGasLimit
  | NeedAtLeast number
  | BuildFailed string
  | WasmMissing
  | OutOfGasReply nat jsval
  | DeployTxCreated string nat jsval obj
  | ContractAndFunctionRequired
  | GasLimitRequired
  | InsufficientGasLimit
  | InteractTxCreated nat jsval obj
  | TxRefused string
  | Uncaught error

fun status :: "reply \<Rightarrow> nat" where
  "status ReLoginRequired = 401"
| "status WasmMissing = 500"
| "status (Uncaught e) = 500"
| "status (DeployTxCreated a c g tx) = 200"
| "status (InteractTxCreated c g tx) = 200"
| "status r = 400"

text \<open>\<open>const { name } = req.body\<close>.\<close>

definition field :: "obj \<Rightarrow> string \<Rightarrow> jsval" where
  "field body name = (case map_of body name of Some v \<Rightarrow> v | None \<Rightarrow> JUndefined)"

definition hex_digit :: "nat \<Rightarrow> char" where
  "hex_digit d = ''0123456789abcdef'' ! (d mod 16)"

text \<open>\<open>n.toString(16)\<close> on a non-negative integer.\<close>

fun toString16 :: "nat \<Rightarrow> string" where
  "toString16 n =
     (if n < 16 then [hex_digit n] else toString16 (n div 16) @ [hex_digit (n mod 16)])"

text \<open>\<open>buffer.toString('hex')\<close>: two digits a byte.\<close>

definition toString_hex :: "8 word list \<Rightarrow> string" where
  "toString_hex bs = concat (map (\<lambda>b. [hex_digit (unat b div 16), hex_digit (unat b mod 16)]) bs)"

fun is_function_export :: "string \<times> wasm_export \<Rightarrow> bool" where
  "is_function_export (name, ExportedFunction f) = True"
| "is_function_export (name, ExportedOther) = False"

text \<open>
  \<open>WebAssembly.Module.exports(mod).filter(e => e.kind === 'function').map(e => e.name)\<close>
\<close>

definition function_export_names :: "wasm_module \<Rightarrow> string list" where
  "function_export_names m = map fst (filter is_function_export (module_exports m))"

text \<open>\<open>tx.k1 = v1; tx.k2 = v2; ...\<close>\<close>

fun assign_all :: "obj \<Rightarrow> (string \<times> jsval) list \<Rightarrow> obj" where
  "assign_all tx [] = tx"
| "assign_all tx ((k, v) # kvs) = assign_all (AList.update k v tx) kvs"

text \<open>POST /api/contract/deploy.\<close>

definition contract_deploy ::
  "runtime \<Rightarrow> services \<Rightarrow> world \<Rightarrow> user \<Rightarrow> obj \<Rightarrow> reply \<times> effect list" where
  "contract_deploy rt sv w usr body =
     (case ephemeralKeys sv (userId usr) of
        None \<Rightarrow> (ReLoginRequired, [])
      | Some eph \<Rightarrow>
         (let userWallet = \<lparr> keyPair = eph, publicKey = walletAddress usr,
                              balance = calculateBalance sv (walletAddress usr) \<rparr>;
              rustCode = field body ''rustCode'';
              gasLimit = field body ''gasLimit'';
              description = field body ''description''
          in if \<not> truthy rustCode then (NoRustCode, [])
             else if \<not> truthy gasLimit \<or> num_le (ToNumber (parse_number rt) gasLimit) (Fin 0)
               then (InvalidGasLimit, [])
             else
               (let needed = num_mul (float_times rt) (ToNumber (parse_number rt) gasLimit) FIXED_GAS_PRICE
                in if num_lt (balance userWallet) needed then (NeedAtLeast needed, [])
                   else
                     (case rustCode of
                        JStr source \<Rightarrow>
                          (case cargo_build sv source of
                             BuildError stderr \<Rightarrow> (BuildFailed stderr, [])
                           | NoArtifact \<Rightarrow> (WasmMissing, [])
                           | Artifact wasmBuffer \<Rightarrow>
                               (let codeSize = length wasmBuffer
                                in if num_gt (Fin (of_nat codeSize)) (ToNumber (parse_number rt) gasLimit)
                                   then (OutOfGasReply codeSize gasLimit, [])
                                   else
                                     (let exports =
                                            (case WebAssembly_compile rt wasmBuffer of
                                               Some md \<Rightarrow> function_export_names md
                                             | None \<Rightarrow> []);
                                          base64 = Buffer_toString_base64 sv wasmBuffer
                                      in case createTransaction sv userWallet (walletAddress usr) (Fin 0) of
                                           Inl message \<Rightarrow>
                                             (TxRefused message,
                                              [CreateTransaction userWallet (walletAddress usr) (Fin 0)])
                                         | Inr tx0 \<Rightarrow>
                                             (let contractAddress =
                                                    toString_hex (randomBytes w 8) @ toString16 (now w);
                                                  tx = assign_all tx0
                                                    [(''type'', JStr ''SMART_CONTRACT''),
                                                     (''isDeploy'', JBool True),
                                                     (''contractAddress'', JStr contractAddress),
                                                     (''wasmBase64'', JStr base64),
                                                     (''rustSource'', JStr (encode sv source)),
                                                     (''exportedFunctions'', JArr (map JStr exports)),
                                                     (''gasLimit'', gasLimit),
                                                     (''gasPrice'', JNum FIXED_GAS_PRICE),
                                                     (''contractDescription'',
                                                        if truthy description then description else JStr [])]
                                              in (DeployTxCreated contractAddress codeSize gasLimit tx,
                                                  [CreateTransaction userWallet (walletAddress usr) (Fin 0),
                                                   SetTransaction tx,
                                                   BroadcastTransaction tx])))))
                      | _ \<Rightarrow> (Uncaught TypeError, [])))))"

text \<open>\<open>Number(v) || 0\<close>\<close>

definition Number_or_0 :: "runtime \<Rightarrow> jsval \<Rightarrow> jsval" where
  "Number_or_0 rt v =
     (let n = JNum (ToNumber (parse_number rt) v) in if truthy n then n else JNum (Fin 0))"

text \<open>POST /api/contract/interact.\<close>

definition contract_interact ::
  "runtime \<Rightarrow> services \<Rightarrow> user \<Rightarrow> obj \<Rightarrow> reply \<times> effect list" where
  "contract_interact rt sv usr body =
     (case ephemeralKeys sv (userId usr) of
        None \<Rightarrow> (ReLoginRequired, [])
      | Some eph \<Rightarrow>
         (let contractAddress = field body ''contractAddress'';
              functionName = field body ''functionName'';
              functionArgs = field body ''functionArgs'';
              gasLimit = field body ''gasLimit''
          in if \<not> truthy contractAddress \<or> \<not> truthy functionName
               then (ContractAndFunctionRequired, [])
             else
               (let userWallet = \<lparr> keyPair = eph, publicKey = walletAddress usr,
                                    balance = calculateBalance sv (walletAddress usr) \<rparr>
                in if \<not> truthy gasLimit \<or> num_le (ToNumber (parse_number rt) gasLimit) (Fin 0)
                     then (GasLimitRequired, [])
                   else
                     (let needed = num_mul (float_times rt) (ToNumber (parse_number rt) gasLimit) FIXED_GAS_PRICE
                      in if num_lt (balance userWallet) needed then (NeedAtLeast needed, [])
                         else if num_lt (ToNumber (parse_number rt) gasLimit) (Fin 200)
                           then (InsufficientGasLimit, [])
                         else
                           (case createTransaction sv userWallet (walletAddress usr) (Fin 0) of
                              Inl message \<Rightarrow>
                                (TxRefused message,
                                 [CreateTransaction userWallet (walletAddress usr) (Fin 0)])
                            | Inr tx0 \<Rightarrow>
                                (let tx = assign_all tx0
                                       [(''type'', JStr ''SMART_CONTRACT''),
                                        (''isDeploy'', JBool False),
                                        (''contractAddress'', contractAddress),
                                        (''functionName'', functionName),
                                        (''functionArgs'',
                                           case functionArgs of
                                             JArr vs \<Rightarrow> JArr (map (Number_or_0 rt) vs)
                                           | _ \<Rightarrow> JArr []),
                                        (''gasLimit'', gasLimit),
                                        (''gasPrice'', JNum FIXED_GAS_PRICE)]
                                 in (InteractTxCreated 200 gasLimit tx,
                                     [CreateTransaction userWallet (walletAddress usr) (Fin 0),
                                      SetTransaction tx,
                                      BroadcastTransaction tx])))))))"

section \<open>Example data\<close>

text \<open>
  Modules in binary form, with their base64 forms. The first is the eight-byte header
  alone: a valid module with no import and no export. The second adds one function that
  returns the constant 42 and exports it as \<open>f\<close>. The third exports a memory as
  \<open>memory\<close> and that function as \<open>f\<close>, as a compiled Rust library does, and is
  padded to 5000 bytes with a custom section. The fourth imports a function \<open>now\<close>
  from \<open>env\<close> and exports a function that returns what it gives. The fifth imports
  \<open>getPrototypeOf\<close>, \<open>isFrozen\<close> and \<open>freeze\<close> from \<open>constructor\<close> and exports a
  function \<open>f\<close> without parameters: it takes \<open>p = getPrototypeOf(0)\<close>, reads
  \<open>isFrozen(p)\<close>, calls \<open>freeze(p)\<close> and returns what it read as a 32-bit integer.
\<close>

definition empty_module_bytes :: "8 word list" where
  "empty_module_bytes = [0x00, 0x61, 0x73, 0x6D, 0x01, 0x00, 0x00, 0x00]"

definition empty_module_base64 :: string where
  "empty_module_base64 = ''AGFzbQEAAAA=''"

definition answer_module_bytes :: "8 word list" where
  "answer_module_bytes =
     [0x00, 0x61, 0x73, 0x6D, 0x01, 0x00, 0x00, 0x00,
      0x01, 0x05, 0x01, 0x60, 0x00, 0x01, 0x7F,
      0x03, 0x02, 0x01, 0x00,
      0x07, 0x05, 0x01, 0x01, 0x66, 0x00, 0x00,
      0x0A, 0x06, 0x01, 0x04, 0x00, 0x41, 0x2A, 0x0B]"

definition answer_module_base64 :: string where
  "answer_module_base64 = ''AGFzbQEAAAABBQFgAAF/AwIBAAcFAQFmAAAKBgEEAEEqCw==''"

definition padded_module_bytes :: "8 word list" where
  "padded_module_bytes =
     [0x00, 0x61, 0x73, 0x6D, 0x01, 0x00, 0x00, 0x00,
      0x01, 0x05, 0x01, 0x60, 0x00, 0x01, 0x7F,
      0x03, 0x02, 0x01, 0x00,
      0x05, 0x03, 0x01, 0x00, 0x01,
      0x07, 0x0E, 0x02, 0x06, 0x6D, 0x65, 0x6D, 0x6F, 0x72, 0x79, 0x02, 0x00,
                        0x01, 0x66, 0x00, 0x00,
      0x0A, 0x06, 0x01, 0x04, 0x00, 0x41, 0x2A, 0x0B,
      0x00, 0xD5, 0x26, 0x00] @ replicate 4948 0x00"

definition padded_module_base64 :: string where
  "padded_module_base64 =
     ''AGFzbQEAAAABBQFgAAF/AwIBAAUDAQABBw4CBm1lbW9yeQIAAWYAAAoGAQQAQSoLANUm''
       @ concat (replicate 1649 ''AAAA'') @ ''AAA=''"

definition clock_module_bytes :: "8 word list" where
  "clock_module_bytes =
     [0x00, 0x61, 0x73, 0x6D, 0x01, 0x00, 0x00, 0x00,
      0x01, 0x05, 0x01, 0x60, 0x00, 0x01, 0x7C,
      0x02, 0x0B, 0x01, 0x03, 0x65, 0x6E, 0x76, 0x03, 0x6E, 0x6F, 0x77, 0x00, 0x00,
      0x03, 0x02, 0x01, 0x00,
      0x07, 0x05, 0x01, 0x01, 0x66, 0x00, 0x01,
      0x0A, 0x06, 0x01, 0x04, 0x00, 0x10, 0x00, 0x0B]"

definition clock_module_base64 :: string where
  "clock_module_base64 = ''AGFzbQEAAAABBQFgAAF8AgsBA2VudgNub3cAAAMCAQAHBQEBZgABCgYBBAAQAAs=''"

definition probe_module_bytes :: "8 word list" where
  "probe_module_bytes =
     [0x00, 0x61, 0x73, 0x6D, 0x01, 0x00, 0x00, 0x00,
      0x01, 0x14, 0x04, 0x60, 0x01, 0x7F, 0x01, 0x6F,
                        0x60, 0x01, 0x6F, 0x01, 0x7F,
                        0x60, 0x01, 0x6F, 0x01, 0x6F,
                        0x60, 0x00, 0x01, 0x7F,
      0x02, 0x4A, 0x03,
        0x0B, 0x63, 0x6F, 0x6E, 0x73, 0x74, 0x72, 0x75, 0x63, 0x74, 0x6F, 0x72,
        0x0E, 0x67, 0x65, 0x74, 0x50, 0x72, 0x6F, 0x74, 0x6F, 0x74, 0x79, 0x70, 0x65, 0x4F, 0x66,
        0x00, 0x00,
        0x0B, 0x63, 0x6F, 0x6E, 0x73, 0x74, 0x72, 0x75, 0x63, 0x74, 0x6F, 0x72,
        0x08, 0x69, 0x73, 0x46, 0x72, 0x6F, 0x7A, 0x65, 0x6E,
        0x00, 0x01,
        0x0B, 0x63, 0x6F, 0x6E, 0x73, 0x74, 0x72, 0x75, 0x63, 0x74, 0x6F, 0x72,
        0x06, 0x66, 0x72, 0x65, 0x65, 0x7A, 0x65,
        0x00, 0x02,
      0x03, 0x02, 0x01, 0x03,
      0x07, 0x05, 0x01, 0x01, 0x66, 0x00, 0x03,
      0x0A, 0x13, 0x01, 0x11, 0x01, 0x01, 0x6F,
                        0x41, 0x00, 0x10, 0x00, 0x22, 0x00, 0x10, 0x01,
                        0x20, 0x00, 0x10, 0x02, 0x1A, 0x0B]"

definition probe_module_base64 :: string where
  "probe_module_base64 =
     ''AGFzbQEAAAABFARgAX8Bb2ABbwF/YAFvAW9gAAF/AkoDC2NvbnN0cnVjdG9yDmdldFByb3RvdHlwZU9mAAALY29uc3RydWN0b3IIaXNGcm96ZW4AAQtjb25zdHJ1Y3RvcgZmcmVlemUAAgMCAQMHBQEBZgADChMBEQEBb0EAEAAiABABIAAQAhoL''"

definition empty_module :: wasm_module where
  "empty_module =
     \<lparr> module_imports = [],
       module_start = (\<lambda>linked. Returned JUndefined),
       module_exports = [] \<rparr>"

definition answer_module :: wasm_module where
  "answer_module =
     \<lparr> module_imports = [],
       module_start = (\<lambda>linked. Returned JUndefined),
       module_exports = [(''f'', ExportedFunction (\<lambda>linked args. Returned (JNum (Fin 42))))] \<rparr>"

definition padded_module :: wasm_module where
  "padded_module =
     \<lparr> module_imports = [],
       module_start = (\<lambda>linked. Returned JUndefined),
       module_exports =
         [(''memory'', ExportedOther),
          (''f'', ExportedFunction (\<lambda>linked args. Returned (JNum (Fin 42))))] \<rparr>"

definition clock_module :: wasm_module where
  "clock_module =
     \<lparr> module_imports = [(''env'', ''now'')],
       module_start = (\<lambda>linked. Returned JUndefined),
       module_exports =
         [(''f'', ExportedFunction
            (\<lambda>linked args.
               case linked (''env'', ''now'') [] of
                 Primitive (JNum n) \<Rightarrow> Returned (JNum n)
               | _ \<Rightarrow> Returned (JNum NaN)))] \<rparr>"

definition probe_module :: wasm_module where
  "probe_module =
     \<lparr> module_imports =
         [(''constructor'', ''getPrototypeOf''), (''constructor'', ''isFrozen''),
          (''constructor'', ''freeze'')],
       module_start = (\<lambda>linked. Returned JUndefined),
       module_exports =
         [(''f'', ExportedFunction
            (\<lambda>linked args.
               let p = linked (''constructor'', ''getPrototypeOf'') [Primitive (JNum (Fin 0))];
                   r = linked (''constructor'', ''isFrozen'') [p];
                   q = linked (''constructor'', ''freeze'') [p]
               in case r of
                    Primitive (JBool b) \<Rightarrow> Returned (JNum (Fin (if b then 1 else 0)))
                  | _ \<Rightarrow> Returned (JNum (Fin 0))))] \<rparr>"

text \<open>
  The runtime at the values the examples use. The five base64 strings are decoded and
  the five byte sequences compiled. A string that is no number parses to NaN; the
  examples use no numeric string and no function name that is not a string. The rounded
  product is listed for the operands the examples multiply, each with 0.1:
  34 * 0.1 is 3.4000000000000004, 202 * 0.1 is 20.200000000000003 and 256.001 * 0.1 is
  25.600099999999998, the other products are exact. Of \<open>Object.prototype\<close>, the
  property \<open>constructor\<close> is listed, which holds \<open>Object\<close>, with three of its
  functions: \<open>Object.getPrototypeOf\<close> of a number is \<open>Number.prototype\<close> (the
  examples apply it to a number only); \<open>Object.isFrozen\<close> tells whether a built-in
  object is frozen and is true of every plain value that is no object;
  \<open>Object.freeze\<close> returns its argument, and leaves a world in which the built-in
  object it was given is frozen.
\<close>

definition example_products :: "(rat \<times> rat) list" where
  "example_products =
     [(34, 34000000000000004 / 10000000000000000),
      (150, 15),
      (202, 20200000000000003 / 1000000000000000),
      (256001 / 1000, 25600099999999998 / 1000000000000000),
      (300, 30),
      (1000, 100),
      (4000, 400),
      (6000, 600),
      (20000, 2000)]"

definition Object_getPrototypeOf :: host_function where
  "Object_getPrototypeOf w args =
     (case args of
        [Primitive (JNum n)] \<Rightarrow> Intrinsic ''Number.prototype''
      | _ \<Rightarrow> Primitive JNull)"

definition Object_isFrozen :: host_function where
  "Object_isFrozen w args =
     (case args of
        Intrinsic name # rest \<Rightarrow> Primitive (JBool (frozen w name))
      | _ \<Rightarrow> Primitive (JBool True))"

definition Object_freeze :: host_function where
  "Object_freeze w args = (case args of [] \<Rightarrow> Primitive JUndefined | v # rest \<Rightarrow> v)"

definition Object_freeze_leaves :: "world \<Rightarrow> host_value list \<Rightarrow> world" where
  "Object_freeze_leaves w args =
     (case args of
        Intrinsic name # rest \<Rightarrow> w \<lparr> frozen := (frozen w)(name := True) \<rparr>
      | _ \<Rightarrow> w)"

definition example_runtime :: runtime where
  "example_runtime =
     \<lparr> Buffer_from_base64 =
         (\<lambda>s. if s = empty_module_base64 then empty_module_bytes
              else if s = answer_module_base64 then answer_module_bytes
              else if s = clock_module_base64 then clock_module_bytes
              else if s = probe_module_base64 then probe_module_bytes
              else if s = padded_module_base64 then padded_module_bytes
              else []),
       WebAssembly_compile =
         (\<lambda>bs. if bs = empty_module_bytes then Some empty_module
               else if bs = answer_module_bytes then Some answer_module
               else if bs = clock_module_bytes then Some clock_module
               else if bs = probe_module_bytes then Some probe_module
               else if bs = padded_module_bytes then Some padded_module
               else None),
       parse_number = (\<lambda>v. NaN),
       ToString = (\<lambda>v. []),
       float_times =
         (\<lambda>a b. if b = 1 / 10
                then (case map_of example_products a of Some p \<Rightarrow> Fin p | None \<Rightarrow> NaN)
                else NaN),
       Object_prototype =
         [''constructor'' \<mapsto>
            [''getPrototypeOf'' \<mapsto> Object_getPrototypeOf, ''isFrozen'' \<mapsto> Object_isFrozen,
             ''freeze'' \<mapsto> Object_freeze]] \<rparr>"

text \<open>
  A node with nothing frozen, and the same node as a call of \<open>Object.freeze\<close> on
  \<open>Number.prototype\<close> leaves it: the world in which the function \<open>f\<close> of the fifth
  module, once called on the first node, leaves that node.
\<close>

definition example_world :: world where
  "example_world =
     \<lparr> now = 1700000000000, randomBytes = (\<lambda>n. replicate n 0xAB), frozen = (\<lambda>name. False) \<rparr>"

definition frozen_world :: world where
  "frozen_world = Object_freeze_leaves example_world [Intrinsic ''Number.prototype'']"

text \<open>
  Stored contracts: the first, the second and the fifth module, each with its state
  object at address 0; the third and the fourth as they are when their deploy
  transaction is executed.
\<close>

definition empty_contract :: doc where
  "empty_contract = \<lparr> codeWasmBase64 = empty_module_base64, state = Some 0 \<rparr>"

definition answer_contract :: doc where
  "answer_contract = \<lparr> codeWasmBase64 = answer_module_base64, state = Some 0 \<rparr>"

definition probe_contract :: doc where
  "probe_contract = \<lparr> codeWasmBase64 = probe_module_base64, state = Some 0 \<rparr>"

definition padded_contract :: doc where
  "padded_contract = \<lparr> codeWasmBase64 = padded_module_base64, state = None \<rparr>"

definition clock_contract :: doc where
  "clock_contract = \<lparr> codeWasmBase64 = clock_module_base64, state = None \<rparr>"

text \<open>
  A node on which user \<open>u1\<close> has a session, with the balance of every address and the
  bytecode that the Rust build yields as given; the standard one has balance 1000 and
  builds the padded module. A further one is the standard one with a wallet that builds
  no transaction.
\<close>

definition node_services :: "rat \<Rightarrow> 8 word list \<Rightarrow> services" where
  "node_services funds artifact =
     \<lparr> ephemeralKeys = [''u1'' \<mapsto> ''c0ffee''],
       calculateBalance = (\<lambda>address. Fin funds),
       createTransaction = (\<lambda>wl recipient amount. Inr [(''id'', JStr ''tx1'')]),
       cargo_build = (\<lambda>source. Artifact artifact),
       Buffer_toString_base64 = (\<lambda>bs. padded_module_base64),
       encode = (\<lambda>s. s) \<rparr>"

definition example_services :: services where
  "example_services = node_services 1000 padded_module_bytes"

definition refusing_services :: services where
  "refusing_services =
     example_services \<lparr> createTransaction := (\<lambda>wl recipient amount. Inl ''Amount exceeds balance'') \<rparr>"

definition example_user :: user where
  "example_user = \<lparr> userId = ''u1'', walletAddress = ''04abc'' \<rparr>"

definition example_source :: string where
  "example_source = ''#[no_mangle] pub fn f() -> i32 { 42 }''"

definition deploy_request :: "rat \<Rightarrow> obj" where
  "deploy_request limit = [(''rustCode'', JStr example_source), (''gasLimit'', JNum (Fin limit))]"

definition interact_request :: "jsval \<Rightarrow> rat \<Rightarrow> obj" where
  "interact_request args limit =
     [(''contractAddress'', JStr ''abababababababab18bcfe56800''),
      (''functionName'', JStr ''f''),
      (''functionArgs'', args),
      (''gasLimit'', JNum (Fin limit))]"

definition example_args :: jsval where
  "example_args = JArr [JNum (Fin 7), JStr ''abc'', JNull, JBool True, JNum (Fin 0)]"

definition example_wallet :: "rat \<Rightarrow> wallet" where
  "example_wallet funds = \<lparr> keyPair = ''c0ffee'', publicKey = ''04abc'', balance = Fin funds \<rparr>"

definition example_interact_tx :: "rat \<Rightarrow> obj" where
  "example_interact_tx limit =
     [(''id'', JStr ''tx1''), (''type'', JStr ''SMART_CONTRACT''), (''isDeploy'', JBool False),
      (''contractAddress'', JStr ''abababababababab18bcfe56800''),
      (''functionName'', JStr ''f''),
      (''functionArgs'', JArr [JNum (Fin 7), JNum (Fin 0), JNum (Fin 0), JNum (Fin 1), JNum (Fin 0)]),
      (''gasLimit'', JNum (Fin limit)), (''gasPrice'', JNum (Fin (1 / 10)))]"

section \<open>Configuration constants\<close>

text \<open>
  C7. The genesis block is the fixed constant block with timestamp 1, lastHash
  "------", difficulty 3, nonce 0 and an empty data sequence.
\<close>

theorem genesis_block_fields:
  "timestamp GENESIS_DATA = Fin 1
   \<and> lastHash GENESIS_DATA = ''------''
   \<and> difficulty GENESIS_DATA = Fin 3
   \<and> nonce GENESIS_DATA = Fin 0
   \<and> data GENESIS_DATA = []"
  by (simp add: GENESIS_DATA_def INITIAL_DIFFICULTY_def)

text \<open>
  C8. The configuration constants have the documented default values: the mining target
  period MINE_RATE is 1000 ms, the initial difficulty is 3, the starting balance is 1000,
  the base mining reward is 50 and the fixed gas price is 0.1.
\<close>

theorem config_defaults:
  "MINE_RATE = Fin 1000
   \<and> INITIAL_DIFFICULTY = Fin 3
   \<and> STARTING_BALANCE = Fin 1000
   \<and> MINING_REWARD = Fin 50
   \<and> FIXED_GAS_PRICE = Fin (1 / 10)"
  by (simp add: MINE_RATE_def INITIAL_DIFFICULTY_def STARTING_BALANCE_def
      MINING_REWARD_def FIXED_GAS_PRICE_def)

section \<open>Facts about the heap and the execution helper\<close>

lemma untouched_nth: "untouched h h' \<Longrightarrow> a < length h \<Longrightarrow> h' ! a = h ! a"
  unfolding untouched_def by (metis nth_take)

lemma untouched_alloc: "untouched h (h @ [ob])"
  by (simp add: untouched_def)

lemma assign_fresh: "assign (h @ [ob]) (length h) k v = h @ [AList.update k v ob]"
  by (simp add: assign_def)

lemma runWasmContract_call:
  assumes "WebAssembly_compile rt (Buffer_from_base64 rt (codeWasmBase64 doc)) = Some m"
    and "instantiate w m (object_literal rt Map.empty) = Some (Inr inst)"
    and "exported_function rt inst functionName = Some f"
  shows "runWasmContract rt w h doc functionName functionArgs gasLimit =
     (if num_gt (Fin 200) (ToNumber (parse_number rt) gasLimit)
      then Some (h @ [spread h (state doc)], Inl (Error ''Out of gas before function call''))
      else (case f functionArgs of
              Diverges \<Rightarrow> None
            | Threw e \<Rightarrow> Some (h @ [spread h (state doc)], Inl e)
            | Returned resultVal \<Rightarrow>
                Some (h @ [AList.update ''lastCallResult'' resultVal (spread h (state doc))],
                      Inr \<lparr> newState = length h, usedGas = Fin 200, result = resultVal \<rparr>)))"
  using assms by (simp add: runWasmContract_def alloc_def assign_fresh split: call_outcome.split)

lemma runWasmContract_no_call:
  assumes "WebAssembly_compile rt (Buffer_from_base64 rt (codeWasmBase64 doc)) = Some m"
    and "instantiate w m (object_literal rt Map.empty) = Some (Inr inst)"
    and "exported_function rt inst functionName = None"
  shows "runWasmContract rt w h doc functionName functionArgs gasLimit =
     (let codeSize = length (Buffer_from_base64 rt (codeWasmBase64 doc))
      in if num_gt (Fin (of_nat codeSize)) (ToNumber (parse_number rt) gasLimit)
         then Some (h @ [spread h (state doc)], Inl (Error ''Out of gas (code size cost too high)''))
         else Some (h @ [spread h (state doc)],
                    Inr \<lparr> newState = length h, usedGas = Fin (of_nat codeSize), result = JNull \<rparr>))"
  using assms by (simp add: runWasmContract_def alloc_def Let_def)

lemma runWasmContract_not_compiled:
  assumes "WebAssembly_compile rt (Buffer_from_base64 rt (codeWasmBase64 doc)) = None"
  shows "runWasmContract rt w h doc functionName functionArgs gasLimit
           = Some (h @ [spread h (state doc)], Inl CompileError)"
  using assms by (simp add: runWasmContract_def alloc_def Let_def)

lemma runWasmContract_not_instantiated:
  assumes "WebAssembly_compile rt (Buffer_from_base64 rt (codeWasmBase64 doc)) = Some m"
    and "instantiate w m (object_literal rt Map.empty) = Some (Inl e)"
  shows "runWasmContract rt w h doc functionName functionArgs gasLimit
           = Some (h @ [spread h (state doc)], Inl e)"
  using assms by (simp add: runWasmContract_def alloc_def Let_def)

lemma runWasmContract_failure_heap:
  "runWasmContract rt w h doc functionName functionArgs gasLimit = Some (h', Inl e)
   \<Longrightarrow> h' = h @ [spread h (state doc)]"
  by (auto simp: runWasmContract_def alloc_def Let_def
      split: option.splits sum.splits call_outcome.splits if_splits)

lemma runWasmContract_success_gas:
  "runWasmContract rt w h doc functionName functionArgs gasLimit = Some (h', Inr r)
   \<Longrightarrow> \<not> num_gt (usedGas r) (ToNumber (parse_number rt) gasLimit)"
  by (auto simp: runWasmContract_def alloc_def Let_def
      split: option.splits sum.splits call_outcome.splits if_splits)

lemma runWasmContract_untouched:
  "runWasmContract rt w h doc functionName functionArgs gasLimit = Some (h', r)
   \<Longrightarrow> untouched h h'"
  by (auto simp: runWasmContract_def alloc_def Let_def assign_fresh untouched_def
      split: option.splits sum.splits call_outcome.splits if_splits)

section \<open>The examples, evaluated\<close>

lemma example_base64_distinct:
  "answer_module_base64 \<noteq> empty_module_base64"
  "clock_module_base64 \<noteq> empty_module_base64"
  "clock_module_base64 \<noteq> answer_module_base64"
  "probe_module_base64 \<noteq> empty_module_base64"
  "probe_module_base64 \<noteq> answer_module_base64"
  "probe_module_base64 \<noteq> clock_module_base64"
  "padded_module_base64 \<noteq> empty_module_base64"
  "padded_module_base64 \<noteq> answer_module_base64"
  "padded_module_base64 \<noteq> clock_module_base64"
  "padded_module_base64 \<noteq> probe_module_base64"
  by (simp_all add: empty_module_base64_def answer_module_base64_def clock_module_base64_def
      probe_module_base64_def padded_module_base64_def)

lemma length_padded_module_bytes: "length padded_module_bytes = 5000"
  by (simp add: padded_module_bytes_def)

lemma length_clock_module_bytes: "length clock_module_bytes = 47"
  by (simp add: clock_module_bytes_def)

lemma length_answer_module_bytes: "length answer_module_bytes = 34"
  by (simp add: answer_module_bytes_def)

lemma example_bytes_distinct:
  "answer_module_bytes \<noteq> empty_module_bytes"
  "clock_module_bytes \<noteq> empty_module_bytes"
  "clock_module_bytes \<noteq> answer_module_bytes"
  "probe_module_bytes \<noteq> empty_module_bytes"
  "probe_module_bytes \<noteq> answer_module_bytes"
  "probe_module_bytes \<noteq> clock_module_bytes"
  "padded_module_bytes \<noteq> empty_module_bytes"
  "padded_module_bytes \<noteq> answer_module_bytes"
  "padded_module_bytes \<noteq> clock_module_bytes"
  "padded_module_bytes \<noteq> probe_module_bytes"
  by (simp_all add: empty_module_bytes_def answer_module_bytes_def clock_module_bytes_def
      probe_module_bytes_def padded_module_bytes_def)

lemma example_decode:
  "Buffer_from_base64 example_runtime (codeWasmBase64 empty_contract) = empty_module_bytes"
  "Buffer_from_base64 example_runtime (codeWasmBase64 answer_contract) = answer_module_bytes"
  "Buffer_from_base64 example_runtime (codeWasmBase64 clock_contract) = clock_module_bytes"
  "Buffer_from_base64 example_runtime (codeWasmBase64 probe_contract) = probe_module_bytes"
  "Buffer_from_base64 example_runtime (codeWasmBase64 padded_contract) = padded_module_bytes"
  by (simp_all add: example_runtime_def empty_contract_def answer_contract_def clock_contract_def
      probe_contract_def padded_contract_def example_base64_distinct)

lemma example_compile_bytes:
  "WebAssembly_compile example_runtime empty_module_bytes = Some empty_module"
  "WebAssembly_compile example_runtime answer_module_bytes = Some answer_module"
  "WebAssembly_compile example_runtime clock_module_bytes = Some clock_module"
  "WebAssembly_compile example_runtime probe_module_bytes = Some probe_module"
  "WebAssembly_compile example_runtime padded_module_bytes = Some padded_module"
  by (simp_all add: example_runtime_def example_bytes_distinct)

lemma example_compile_empty:
  "WebAssembly_compile example_runtime (Buffer_from_base64 example_runtime (codeWasmBase64 empty_contract))
     = Some empty_module"
  by (simp add: example_decode example_compile_bytes)

lemma example_compile_answer:
  "WebAssembly_compile example_runtime (Buffer_from_base64 example_runtime (codeWasmBase64 answer_contract))
     = Some answer_module"
  by (simp add: example_decode example_compile_bytes)

lemma example_compile_probe:
  "WebAssembly_compile example_runtime (Buffer_from_base64 example_runtime (codeWasmBase64 probe_contract))
     = Some probe_module"
  by (simp add: example_decode example_compile_bytes)

lemma example_instantiate_empty:
  "instantiate w empty_module (object_literal rt Map.empty) = Some (Inr \<lparr> exports = [] \<rparr>)"
  by (simp add: instantiate_def empty_module_def)

lemma example_instantiate_answer:
  "instantiate w answer_module (object_literal rt Map.empty) =
     Some (Inr \<lparr> exports = [(''f'', Function (\<lambda>args. Returned (JNum (Fin 42))))] \<rparr>)"
  by (simp add: instantiate_def answer_module_def)

lemma example_instantiate_padded:
  "instantiate w padded_module (object_literal rt Map.empty) =
     Some (Inr \<lparr> exports = [(''memory'', NotFunction),
                              (''f'', Function (\<lambda>args. Returned (JNum (Fin 42))))] \<rparr>)"
  by (simp add: instantiate_def padded_module_def)

lemma example_instantiate_clock:
  "instantiate w clock_module (object_literal example_runtime Map.empty) = Some (Inl TypeError)"
  by (simp add: instantiate_def clock_module_def object_literal_def example_runtime_def)

lemma example_instantiate_probe:
  "instantiate w probe_module (object_literal example_runtime Map.empty) =
     Some (Inr \<lparr> exports =
       [(''f'', Function (\<lambda>args. Returned (JNum (Fin (if frozen w ''Number.prototype'' then 1 else 0)))))] \<rparr>)"
  by (simp add: instantiate_def probe_module_def object_literal_def example_runtime_def link_def
      Object_getPrototypeOf_def Object_isFrozen_def Object_freeze_def Let_def)

lemma example_exported_f:
  "exported_function example_runtime \<lparr> exports = [(''f'', Function g)] \<rparr> (JStr ''f'') = Some g"
  by (simp add: exported_function_def property_key_def)

lemma example_code_size:
  "length (Buffer_from_base64 example_runtime (codeWasmBase64 empty_contract)) = 8"
  by (simp add: example_decode empty_module_bytes_def)

lemma example_not_exported:
  "exported_function example_runtime \<lparr> exports = [] \<rparr> (JStr ''missing'') = None"
  by (simp add: exported_function_def property_key_def)

lemma example_state:
  "state empty_contract = Some 0" "state answer_contract = Some 0" "state probe_contract = Some 0"
  "state padded_contract = None" "state clock_contract = None"
  by (simp_all add: empty_contract_def answer_contract_def probe_contract_def padded_contract_def
      clock_contract_def)

lemma example_product:
  "num_mul (float_times example_runtime) (Fin 34) FIXED_GAS_PRICE
     = Fin (34000000000000004 / 10000000000000000)"
  "num_mul (float_times example_runtime) (Fin 150) FIXED_GAS_PRICE = Fin 15"
  "num_mul (float_times example_runtime) (Fin 202) FIXED_GAS_PRICE
     = Fin (20200000000000003 / 1000000000000000)"
  "num_mul (float_times example_runtime) (Fin (256001 / 1000)) FIXED_GAS_PRICE
     = Fin (25600099999999998 / 1000000000000000)"
  "num_mul (float_times example_runtime) (Fin 300) FIXED_GAS_PRICE = Fin 30"
  "num_mul (float_times example_runtime) (Fin 1000) FIXED_GAS_PRICE = Fin 100"
  "num_mul (float_times example_runtime) (Fin 4000) FIXED_GAS_PRICE = Fin 400"
  "num_mul (float_times example_runtime) (Fin 6000) FIXED_GAS_PRICE = Fin 600"
  "num_mul (float_times example_runtime) (Fin 20000) FIXED_GAS_PRICE = Fin 2000"
  by (simp_all add: example_runtime_def FIXED_GAS_PRICE_def example_products_def)

section \<open>Facts about the routes\<close>

lemma map_of_assign_all:
  "map_of (assign_all tx kvs) key =
     (case map_of (rev kvs) key of Some v \<Rightarrow> Some v | None \<Rightarrow> map_of tx key)"
proof (induction kvs arbitrary: tx)
  case Nil
  show ?case by simp
next
  case (Cons kv kvs)
  obtain k v where kv: "kv = (k, v)" by (cases kv)
  show ?case
    by (simp add: kv Cons.IH update_conv' map_add_def split: option.split)
qed

lemma Number_or_0_eq:
  "Number_or_0 rt v =
     JNum (let n = ToNumber (parse_number rt) v in if n = NaN \<or> n = Fin 0 then Fin 0 else n)"
  by (simp add: Number_or_0_def Let_def)

lemma fee_deploy:
  assumes "num_lt (calculateBalance sv (walletAddress usr))
             (num_mul (float_times rt) (ToNumber (parse_number rt) (field body ''gasLimit''))
                FIXED_GAS_PRICE)"
  shows "snd (contract_deploy rt sv w usr body) = []
       \<and> fst (contract_deploy rt sv w usr body)
           \<in> {ReLoginRequired, NoRustCode, InvalidGasLimit,
               NeedAtLeast (num_mul (float_times rt) (ToNumber (parse_number rt) (field body ''gasLimit''))
                              FIXED_GAS_PRICE)}"
  using assms by (simp add: contract_deploy_def Let_def split: option.split)

lemma fee_interact:
  assumes "num_lt (calculateBalance sv (walletAddress usr))
             (num_mul (float_times rt) (ToNumber (parse_number rt) (field body ''gasLimit''))
                FIXED_GAS_PRICE)"
  shows "snd (contract_interact rt sv usr body) = []
       \<and> fst (contract_interact rt sv usr body)
           \<in> {ReLoginRequired, ContractAndFunctionRequired, GasLimitRequired,
               NeedAtLeast (num_mul (float_times rt) (ToNumber (parse_number rt) (field body ''gasLimit''))
                              FIXED_GAS_PRICE)}"
  using assms by (simp add: contract_interact_def Let_def split: option.split)

lemma interact_pooled:
  assumes "SetTransaction tx \<in> set (snd (contract_interact rt sv usr body))"
  shows "map_of tx ''functionArgs'' =
           Some (JArr (case field body ''functionArgs'' of
                         JArr vs \<Rightarrow> map (Number_or_0 rt) vs | _ \<Rightarrow> []))
       \<and> map_of tx ''type'' = Some (JStr ''SMART_CONTRACT'')"
  using assms
  by (auto simp: contract_interact_def Let_def update_conv'
      split: option.splits if_splits sum.splits jsval.splits)

lemma deploy_reaches_gas_check:
  assumes "ephemeralKeys sv (userId usr) = Some eph"
    and "field body ''rustCode'' = JStr source" and "source \<noteq> []"
    and "truthy (field body ''gasLimit'')"
    and "\<not> num_le (ToNumber (parse_number rt) (field body ''gasLimit'')) (Fin 0)"
    and "\<not> num_lt (calculateBalance sv (walletAddress usr))
             (num_mul (float_times rt) (ToNumber (parse_number rt) (field body ''gasLimit''))
                FIXED_GAS_PRICE)"
    and "cargo_build sv source = Artifact wasmBuffer"
  shows "contract_deploy rt sv w usr body =
     (let userWallet = \<lparr> keyPair = eph, publicKey = walletAddress usr,
                          balance = calculateBalance sv (walletAddress usr) \<rparr>;
          gasLimit = field body ''gasLimit'';
          description = field body ''description'';
          codeSize = length wasmBuffer
      in if num_gt (Fin (of_nat codeSize)) (ToNumber (parse_number rt) gasLimit)
         then (OutOfGasReply codeSize gasLimit, [])
         else
           (case createTransaction sv userWallet (walletAddress usr) (Fin 0) of
              Inl message \<Rightarrow>
                (TxRefused message, [CreateTransaction userWallet (walletAddress usr) (Fin 0)])
            | Inr tx0 \<Rightarrow>
                (let contractAddress = toString_hex (randomBytes w 8) @ toString16 (now w);
                     tx = assign_all tx0
                       [(''type'', JStr ''SMART_CONTRACT''),
                        (''isDeploy'', JBool True),
                        (''contractAddress'', JStr contractAddress),
                        (''wasmBase64'', JStr (Buffer_toString_base64 sv wasmBuffer)),
                        (''rustSource'', JStr (encode sv source)),
                        (''exportedFunctions'',
                           JArr (map JStr (case WebAssembly_compile rt wasmBuffer of
                                             Some md \<Rightarrow> function_export_names md
                                           | None \<Rightarrow> []))),
                        (''gasLimit'', gasLimit),
                        (''gasPrice'', JNum FIXED_GAS_PRICE),
                        (''contractDescription'',
                           if truthy description then description else JStr [])]
                 in (DeployTxCreated contractAddress codeSize gasLimit tx,
                     [CreateTransaction userWallet (walletAddress usr) (Fin 0),
                      SetTransaction tx,
                      BroadcastTransaction tx]))))"
  using assms by (simp add: contract_deploy_def Let_def del: assign_all.simps)

lemma interact_reaches_transaction:
  assumes "ephemeralKeys sv (userId usr) = Some eph"
    and "truthy (field body ''contractAddress'')" and "truthy (field body ''functionName'')"
    and "truthy (field body ''gasLimit'')"
    and "\<not> num_le (ToNumber (parse_number rt) (field body ''gasLimit'')) (Fin 0)"
    and "\<not> num_lt (calculateBalance sv (walletAddress usr))
             (num_mul (float_times rt) (ToNumber (parse_number rt) (field body ''gasLimit''))
                FIXED_GAS_PRICE)"
    and "\<not> num_lt (ToNumber (parse_number rt) (field body ''gasLimit'')) (Fin 200)"
  shows "contract_interact rt sv usr body =
     (let userWallet = \<lparr> keyPair = eph, publicKey = walletAddress usr,
                          balance = calculateBalance sv (walletAddress usr) \<rparr>
      in case createTransaction sv userWallet (walletAddress usr) (Fin 0) of
           Inl message \<Rightarrow>
             (TxRefused message, [CreateTransaction userWallet (walletAddress usr) (Fin 0)])
         | Inr tx0 \<Rightarrow>
             (let tx = assign_all tx0
                    [(''type'', JStr ''SMART_CONTRACT''),
                     (''isDeploy'', JBool False),
                     (''contractAddress'', field body ''contractAddress''),
                     (''functionName'', field body ''functionName''),
                     (''functionArgs'',
                        case field body ''functionArgs'' of
                          JArr vs \<Rightarrow> JArr (map (Number_or_0 rt) vs)
                        | _ \<Rightarrow> JArr []),
                     (''gasLimit'', field body ''gasLimit''),
                     (''gasPrice'', JNum FIXED_GAS_PRICE)]
              in (InteractTxCreated 200 (field body ''gasLimit'') tx,
                  [CreateTransaction userWallet (walletAddress usr) (Fin 0),
                   SetTransaction tx,
                   BroadcastTransaction tx])))"
  using assms by (simp add: contract_interact_def Let_def del: assign_all.simps)


lemma function_export_names_eq:
  "function_export_names md =
     concat (map (\<lambda>(name, e). case e of ExportedFunction f \<Rightarrow> [name] | ExportedOther \<Rightarrow> [])
               (module_exports md))"
proof -
  have "map fst (filter is_function_export xs) =
     concat (map (\<lambda>(name, e). case e of ExportedFunction f \<Rightarrow> [name] | ExportedOther \<Rightarrow> []) xs)"
    for xs :: "(string \<times> wasm_export) list"
  proof (induction xs)
    case Nil
    show ?case by simp
  next
    case (Cons x xs)
    obtain name e where x: "x = (name, e)" by (cases x)
    show ?case using Cons.IH by (cases e) (simp_all add: x)
  qed
  then show ?thesis by (simp add: function_export_names_def)
qed

section \<open>The examples on the routes\<close>

lemma replicate_8: "replicate 8 x = [x, x, x, x, x, x, x, x]"
  by (simp add: numeral_eq_Suc)

lemma example_hex: "toString_hex (replicate 8 (0xAB :: 8 word)) = ''abababababababab''"
  by (simp add: replicate_8 toString_hex_def hex_digit_def)

lemma example_clock: "toString16 1700000000000 = ''18bcfe56800''"
  by (simp add: hex_digit_def)

lemma example_session:
  "ephemeralKeys (node_services funds artifact) (userId example_user) = Some ''c0ffee''"
  by (simp add: node_services_def example_user_def)

lemma example_build: "cargo_build (node_services funds artifact) source = Artifact artifact"
  by (simp add: node_services_def)

lemma example_source_nonempty: "example_source \<noteq> []"
  by (simp add: example_source_def)

lemma example_balance: "calculateBalance (node_services funds artifact) a = Fin funds"
  by (simp add: node_services_def)

lemma example_created:
  "createTransaction (node_services funds artifact)
     \<lparr> keyPair = ''c0ffee'', publicKey = walletAddress example_user,
       balance = calculateBalance (node_services funds artifact) (walletAddress example_user) \<rparr>
     (walletAddress example_user) (Fin 0) = Inr [(''id'', JStr ''tx1'')]"
  by (simp add: node_services_def)

lemma example_deploy_fields:
  "field (deploy_request limit) ''rustCode'' = JStr example_source"
  "field (deploy_request limit) ''gasLimit'' = JNum (Fin limit)"
  "field (deploy_request limit) ''description'' = JUndefined"
  by (simp_all add: field_def deploy_request_def)

lemma example_interact_fields:
  "field (interact_request args limit) ''contractAddress'' = JStr ''abababababababab18bcfe56800''"
  "field (interact_request args limit) ''functionName'' = JStr ''f''"
  "field (interact_request args limit) ''functionArgs'' = args"
  "field (interact_request args limit) ''gasLimit'' = JNum (Fin limit)"
  by (simp_all add: field_def interact_request_def)

lemma example_wallet_eq:
  "\<lparr> keyPair = ''c0ffee'', publicKey = walletAddress example_user,
     balance = calculateBalance (node_services funds artifact) (walletAddress example_user) \<rparr>
   = example_wallet funds"
  by (simp add: example_wallet_def example_user_def node_services_def)

lemma example_deploy_checks:
  assumes "num_mul (float_times example_runtime) (Fin limit) FIXED_GAS_PRICE = Fin needed"
    and "0 < limit" and "needed \<le> funds"
  shows "truthy (field (deploy_request limit) ''gasLimit'')"
    "\<not> num_le (ToNumber (parse_number example_runtime) (field (deploy_request limit) ''gasLimit''))
         (Fin 0)"
    "\<not> num_lt (calculateBalance (node_services funds artifact) (walletAddress example_user))
         (num_mul (float_times example_runtime)
            (ToNumber (parse_number example_runtime) (field (deploy_request limit) ''gasLimit''))
            FIXED_GAS_PRICE)"
  using assms by (simp_all add: example_deploy_fields example_balance num_le_def)

lemma example_interact_checks:
  assumes "num_mul (float_times example_runtime) (Fin limit) FIXED_GAS_PRICE = Fin needed"
    and "0 < limit" and "needed \<le> funds"
  shows "truthy (field (interact_request args limit) ''contractAddress'')"
    "truthy (field (interact_request args limit) ''functionName'')"
    "truthy (field (interact_request args limit) ''gasLimit'')"
    "\<not> num_le (ToNumber (parse_number example_runtime) (field (interact_request args limit) ''gasLimit''))
         (Fin 0)"
    "\<not> num_lt (calculateBalance (node_services funds artifact) (walletAddress example_user))
         (num_mul (float_times example_runtime)
            (ToNumber (parse_number example_runtime) (field (interact_request args limit) ''gasLimit''))
            FIXED_GAS_PRICE)"
  using assms by (simp_all add: example_interact_fields example_balance num_le_def)

lemma example_coerced:
  "map (Number_or_0 example_runtime) [JNum (Fin 7), JStr ''abc'', JNull, JBool True, JNum (Fin 0)]
     = [JNum (Fin 7), JNum (Fin 0), JNum (Fin 0), JNum (Fin 1), JNum (Fin 0)]"
  by (simp add: Number_or_0_def example_runtime_def)

lemma example_interact_run:
  assumes "num_mul (float_times example_runtime) (Fin limit) FIXED_GAS_PRICE = Fin needed"
    and "200 \<le> limit" and "needed \<le> funds"
  shows "contract_interact example_runtime (node_services funds artifact) example_user
           (interact_request example_args limit)
     = (InteractTxCreated 200 (JNum (Fin limit)) (example_interact_tx limit),
        [CreateTransaction (example_wallet funds) ''04abc'' (Fin 0),
         SetTransaction (example_interact_tx limit),
         BroadcastTransaction (example_interact_tx limit)])"
proof -
  have pos: "0 < limit" using assms(2) by simp
  have enough: "\<not> num_lt (ToNumber (parse_number example_runtime)
      (field (interact_request example_args limit) ''gasLimit'')) (Fin 200)"
    using assms(2) by (simp add: example_interact_fields)
  show ?thesis
    unfolding interact_reaches_transaction
      [OF example_session example_interact_checks [OF assms(1) pos assms(3)] enough]
    by (simp add: node_services_def example_user_def example_wallet_def example_interact_fields
        example_args_def example_coerced [simplified] example_interact_tx_def FIXED_GAS_PRICE_def
        Let_def)
qed

lemma example_deploy_refused:
  assumes "num_mul (float_times example_runtime) (Fin limit) FIXED_GAS_PRICE = Fin needed"
    and "0 < limit" and "funds < needed"
  shows "contract_deploy example_runtime (node_services funds artifact) w example_user
           (deploy_request limit) = (NeedAtLeast (Fin needed), [])"
  using assms
  by (simp add: contract_deploy_def example_session example_deploy_fields example_source_nonempty
      example_balance num_le_def Let_def)

lemma example_interact_refused:
  assumes "num_mul (float_times example_runtime) (Fin limit) FIXED_GAS_PRICE = Fin needed"
    and "0 < limit" and "funds < needed"
  shows "contract_interact example_runtime (node_services funds artifact) example_user
           (interact_request args limit) = (NeedAtLeast (Fin needed), [])"
  using assms
  by (simp add: contract_interact_def example_session example_interact_fields
      example_balance num_le_def Let_def)

text \<open>
  The fee test follows the rounded product: with funds 3.4 a gas limit of 34 is
  refused, since 34 * 0.1 is 3.4000000000000004; with funds 20.2 a gas limit of 202 is
  refused, since 202 * 0.1 is 20.200000000000003; with funds 25.600099999999998 a gas
  limit of 256.001 passes, since 256.001 * 0.1 is that same double.
\<close>

lemma fee_test_uses_rounded_product:
  "contract_deploy example_runtime (node_services (34 / 10) answer_module_bytes) example_world
     example_user (deploy_request 34)
     = (NeedAtLeast (Fin (34000000000000004 / 10000000000000000)), [])"
  "contract_interact example_runtime (node_services (202 / 10) answer_module_bytes) example_user
     (interact_request example_args 202)
     = (NeedAtLeast (Fin (20200000000000003 / 1000000000000000)), [])"
  "contract_interact example_runtime
     (node_services (25600099999999998 / 1000000000000000) answer_module_bytes) example_user
     (interact_request example_args (256001 / 1000))
     = (InteractTxCreated 200 (JNum (Fin (256001 / 1000))) (example_interact_tx (256001 / 1000)),
        [CreateTransaction (example_wallet (25600099999999998 / 1000000000000000)) ''04abc'' (Fin 0),
         SetTransaction (example_interact_tx (256001 / 1000)),
         BroadcastTransaction (example_interact_tx (256001 / 1000))])"
proof -
  show "contract_deploy example_runtime (node_services (34 / 10) answer_module_bytes) example_world
     example_user (deploy_request 34)
     = (NeedAtLeast (Fin (34000000000000004 / 10000000000000000)), [])"
    by (rule example_deploy_refused [OF example_product(1)]) simp_all
  show "contract_interact example_runtime (node_services (202 / 10) answer_module_bytes) example_user
     (interact_request example_args 202)
     = (NeedAtLeast (Fin (20200000000000003 / 1000000000000000)), [])"
    by (rule example_interact_refused [OF example_product(3)]) simp_all
  show "contract_interact example_runtime
     (node_services (25600099999999998 / 1000000000000000) answer_module_bytes) example_user
     (interact_request example_args (256001 / 1000))
     = (InteractTxCreated 200 (JNum (Fin (256001 / 1000))) (example_interact_tx (256001 / 1000)),
        [CreateTransaction (example_wallet (25600099999999998 / 1000000000000000)) ''04abc'' (Fin 0),
         SetTransaction (example_interact_tx (256001 / 1000)),
         BroadcastTransaction (example_interact_tx (256001 / 1000))])"
    by (rule example_interact_run [OF example_product(4)]) simp_all
qed

section \<open>The execution helper: function lookup, gas and state\<close>

text \<open>
  C1, as amended. When the requested functionName is not an exported function of the
  instantiated module, the helper does not fail with a function-not-found error: it takes
  the code-size branch. It charges the length of the bytecode, throws "Out of gas (code
  size cost too high)" when that exceeds gasLimit, and otherwise returns with result
  null, usedGas the length of the bytecode and a new state object that is a copy of the
  contract's state. The heap afterwards is the heap before plus that copy: the contract's
  state object is unchanged and no lastCallResult is written.
\<close>

theorem missing_function_charges_code_size:
  assumes "WebAssembly_compile rt (Buffer_from_base64 rt (codeWasmBase64 doc)) = Some m"
    and "instantiate w m (object_literal rt Map.empty) = Some (Inr inst)"
    and "\<nexists>f. map_of (exports inst) (property_key rt functionName) = Some (Function f)"
    and "state doc = Some a" and "a < length h"
  shows "runWasmContract rt w h doc functionName functionArgs gasLimit =
     (if num_gt (Fin (of_nat (length (Buffer_from_base64 rt (codeWasmBase64 doc)))))
           (ToNumber (parse_number rt) gasLimit)
      then Some (h @ [h ! a], Inl (Error ''Out of gas (code size cost too high)''))
      else Some (h @ [h ! a],
                 Inr \<lparr> newState = length h,
                       usedGas = Fin (of_nat (length (Buffer_from_base64 rt (codeWasmBase64 doc)))),
                       result = JNull \<rparr>))"
proof -
  have "exported_function rt inst functionName = None"
    using assms(3) by (auto simp: exported_function_def split: option.splits export_value.splits)
  moreover have "spread h (state doc) = h ! a"
    using assms(4,5) by (simp add: spread_def)
  ultimately show ?thesis
    using runWasmContract_no_call [OF assms(1,2)] by (simp add: Let_def)
qed

theorem missing_function_charges_code_size_witness:
  "runWasmContract example_runtime example_world [[]] empty_contract
     (JStr ''missing'') [] (JNum (Fin 5))
   = Some ([[], []], Inl (Error ''Out of gas (code size cost too high)''))"
proof -
  have none: "\<nexists>f. map_of (exports \<lparr> exports = [] \<rparr>) (property_key example_runtime (JStr ''missing''))
          = Some (Function f)"
    by simp
  have addr: "(0::nat) < length [[] :: obj]" by simp
  show ?thesis
    using missing_function_charges_code_size
      [OF example_compile_empty example_instantiate_empty none example_state(1) addr]
    by (simp add: example_code_size num_gt_def)
qed

text \<open>
  C1, as stated, fails: on the stored eight-byte module, which exports nothing, an invoke
  of \<open>missing\<close> with gasLimit 1000 returns successfully, with usedGas 8 and result null.
\<close>

theorem missing_function_succeeds_counterexample:
  "runWasmContract example_runtime example_world [[]] empty_contract
     (JStr ''missing'') [] (JNum (Fin 1000))
   = Some ([[], []], Inr \<lparr> newState = 1, usedGas = Fin 8, result = JNull \<rparr>)"
  using runWasmContract_no_call [OF example_compile_empty example_instantiate_empty example_not_exported]
  by (simp add: example_code_size example_state spread_def num_gt_def)





text \<open>
  C5. Whenever the helper returns an object (deploy or invoke), the reported usedGas
  does not exceed gasLimit (and is at most gasLimit when gasLimit is a number other than
  NaN); whenever it throws, the heap is the heap before plus the unmodified copy of the
  state, so that no object that existed before, the contract's state among them, has
  changed.
\<close>

theorem gas_bound_and_all_or_nothing:
  "(\<forall>h' r. runWasmContract rt w h doc functionName functionArgs gasLimit = Some (h', Inr r) \<longrightarrow>
       \<not> num_gt (usedGas r) (ToNumber (parse_number rt) gasLimit)
       \<and> (ToNumber (parse_number rt) gasLimit \<noteq> NaN \<longrightarrow>
            num_le (usedGas r) (ToNumber (parse_number rt) gasLimit)))
   \<and> (\<forall>h' e. runWasmContract rt w h doc functionName functionArgs gasLimit = Some (h', Inl e) \<longrightarrow>
       h' = h @ [spread h (state doc)] \<and> untouched h h')"
proof -
  have "usedGas r \<noteq> NaN"
    if "runWasmContract rt w h doc functionName functionArgs gasLimit = Some (h', Inr r)" for h' r
    using that
    by (auto simp: runWasmContract_def alloc_def Let_def
        split: option.splits sum.splits call_outcome.splits if_splits)
  then show ?thesis
    using runWasmContract_success_gas [of rt w h doc functionName functionArgs gasLimit]
      runWasmContract_failure_heap [of rt w h doc functionName functionArgs gasLimit]
      runWasmContract_untouched [of rt w h doc functionName functionArgs gasLimit]
    by (simp add: num_le_def num_gt_def)
qed

theorem gas_bound_and_all_or_nothing_witness:
  "runWasmContract example_runtime example_world [[]] answer_contract (JStr ''f'') [] (JNum (Fin 1000))
     = Some ([[], [(''lastCallResult'', JNum (Fin 42))]],
             Inr \<lparr> newState = 1, usedGas = Fin 200, result = JNum (Fin 42) \<rparr>)
   \<and> num_le (Fin 200) (Fin 1000)
   \<and> runWasmContract example_runtime example_world [[]] empty_contract JUndefined [] (JNum (Fin 7))
     = Some ([[], []], Inl (Error ''Out of gas (code size cost too high)''))
   \<and> untouched [[]] [[], []]"
proof -
  have ok: "runWasmContract example_runtime example_world [[]] answer_contract (JStr ''f'') []
       (JNum (Fin 1000))
     = Some ([[], [(''lastCallResult'', JNum (Fin 42))]],
             Inr \<lparr> newState = 1, usedGas = Fin 200, result = JNum (Fin 42) \<rparr>)"
    using runWasmContract_call [OF example_compile_answer example_instantiate_answer example_exported_f]
    by (simp add: num_gt_def example_state spread_def)
  have no_fn: "exported_function example_runtime \<lparr> exports = [] \<rparr> JUndefined = None"
    by (simp add: exported_function_def)
  have bad: "runWasmContract example_runtime example_world [[]] empty_contract JUndefined []
       (JNum (Fin 7))
     = Some ([[], []], Inl (Error ''Out of gas (code size cost too high)''))"
    using runWasmContract_no_call [OF example_compile_empty example_instantiate_empty no_fn]
    by (simp add: num_gt_def example_state spread_def example_code_size)
  show ?thesis
    using ok bad
      gas_bound_and_all_or_nothing [of example_runtime example_world "[[]]" answer_contract
        "JStr ''f''" "[]" "JNum (Fin 1000)"]
      gas_bound_and_all_or_nothing [of example_runtime example_world "[[]]" empty_contract
        JUndefined "[]" "JNum (Fin 7)"]
    by simp
qed

text \<open>
  C6 does not hold of the code. The helper hands the module the import object \<open>{}\<close>,
  which has no property of its own but inherits those of \<open>Object.prototype\<close>: a module
  that imports \<open>getPrototypeOf\<close>, \<open>isFrozen\<close> and \<open>freeze\<close> from \<open>constructor\<close> is
  linked to \<open>Object.getPrototypeOf\<close>, \<open>Object.isFrozen\<close> and \<open>Object.freeze\<close>. The
  same invoke of its function \<open>f\<close>, on the same stored contract with the same state,
  arguments and gas limit, returns 0 on a node where \<open>Number.prototype\<close> is not frozen
  and 1 on that node as the freeze of \<open>Number.prototype\<close> leaves it (which is what the
  first invoke does), and the two new states differ in lastCallResult.
\<close>

theorem inherited_imports_break_determinism:
  "runWasmContract example_runtime example_world [[]] probe_contract (JStr ''f'') [] (JNum (Fin 1000))
     = Some ([[], [(''lastCallResult'', JNum (Fin 0))]],
             Inr \<lparr> newState = 1, usedGas = Fin 200, result = JNum (Fin 0) \<rparr>)
   \<and> runWasmContract example_runtime frozen_world [[]] probe_contract (JStr ''f'') [] (JNum (Fin 1000))
     = Some ([[], [(''lastCallResult'', JNum (Fin 1))]],
             Inr \<lparr> newState = 1, usedGas = Fin 200, result = JNum (Fin 1) \<rparr>)"
proof -
  have "runWasmContract example_runtime w [[]] probe_contract (JStr ''f'') [] (JNum (Fin 1000))
     = Some ([[], [(''lastCallResult'', JNum (Fin (if frozen w ''Number.prototype'' then 1 else 0)))]],
             Inr \<lparr> newState = 1, usedGas = Fin 200,
                   result = JNum (Fin (if frozen w ''Number.prototype'' then 1 else 0)) \<rparr>)" for w
    using runWasmContract_call [OF example_compile_probe example_instantiate_probe example_exported_f]
    by (simp add: num_gt_def example_state spread_def)
  from this [of example_world] this [of frozen_world] show ?thesis
    by (simp add: example_world_def frozen_world_def Object_freeze_leaves_def)
qed

text \<open>
  The names that \<open>Object.prototype\<close> does not hold stay out of reach: a module that
  imports from a module name found neither among the own properties of the import
  object nor on \<open>Object.prototype\<close> is refused with a TypeError.
\<close>

lemma unknown_import_refused:
  assumes "Object_prototype rt moduleName = None"
  shows "read_imports (object_literal rt Map.empty) ((moduleName, fieldName) # rest) = Some TypeError"
  using assms by (simp add: object_literal_def)

section \<open>The routes: gas check of a deployment, fee check, argument coercion\<close>

text \<open>
  C3, as amended. For a deploy request that reaches the gas check of the route (a
  session, Rust source, a valid gasLimit, the fee covered, a build that yields bytecode),
  the gas cost is the length of the bytecode. When the length exceeds gasLimit the route
  answers "Out of gas" and makes no transaction. Otherwise, unless the wallet refuses to
  build the transaction, the route pools and broadcasts a deploy transaction whose
  exportedFunctions are exactly the names of the function exports of the bytecode, in
  their order (none when the bytecode does not compile). When the deployment is executed,
  bytecode that does not compile or does not instantiate fails with that error before
  the gas test, whatever the gasLimit; bytecode that does fails with "Out of gas (code
  size cost too high)" when its length exceeds gasLimit and otherwise succeeds with
  usedGas the length of the bytecode.
\<close>

theorem deploy_gas_is_code_size:
  assumes "ephemeralKeys sv (userId usr) = Some eph"
    and "field body ''rustCode'' = JStr source" and "source \<noteq> []"
    and "truthy (field body ''gasLimit'')"
    and "\<not> num_le (ToNumber (parse_number rt) (field body ''gasLimit'')) (Fin 0)"
    and "\<not> num_lt (calculateBalance sv (walletAddress usr))
             (num_mul (float_times rt) (ToNumber (parse_number rt) (field body ''gasLimit''))
                FIXED_GAS_PRICE)"
    and "cargo_build sv source = Artifact wasmBuffer"
    and "userWallet = \<lparr> keyPair = eph, publicKey = walletAddress usr,
                         balance = calculateBalance sv (walletAddress usr) \<rparr>"
    and "Buffer_from_base64 rt (codeWasmBase64 doc) = wasmBuffer"
  shows "(num_gt (Fin (of_nat (length wasmBuffer))) (ToNumber (parse_number rt) (field body ''gasLimit''))
          \<longrightarrow> contract_deploy rt sv w usr body
                = (OutOfGasReply (length wasmBuffer) (field body ''gasLimit''), []))
       \<and> (\<not> num_gt (Fin (of_nat (length wasmBuffer))) (ToNumber (parse_number rt) (field body ''gasLimit''))
          \<longrightarrow> (\<forall>message. createTransaction sv userWallet (walletAddress usr) (Fin 0) = Inl message
                  \<longrightarrow> contract_deploy rt sv w usr body
                        = (TxRefused message,
                           [CreateTransaction userWallet (walletAddress usr) (Fin 0)]))
              \<and> (\<forall>tx0. createTransaction sv userWallet (walletAddress usr) (Fin 0) = Inr tx0
                  \<longrightarrow> (\<exists>tx. contract_deploy rt sv w usr body
                              = (DeployTxCreated (toString_hex (randomBytes w 8) @ toString16 (now w))
                                   (length wasmBuffer) (field body ''gasLimit'') tx,
                                 [CreateTransaction userWallet (walletAddress usr) (Fin 0),
                                  SetTransaction tx, BroadcastTransaction tx])
                            \<and> map_of tx ''isDeploy'' = Some (JBool True)
                            \<and> map_of tx ''exportedFunctions''
                                = Some (JArr (map JStr
                                    (case WebAssembly_compile rt wasmBuffer of
                                       None \<Rightarrow> []
                                     | Some md \<Rightarrow>
                                         concat (map (\<lambda>(name, e). case e of
                                                        ExportedFunction f \<Rightarrow> [name]
                                                      | ExportedOther \<Rightarrow> [])
                                                   (module_exports md))))))))
       \<and> runWasmContract rt w h doc JUndefined [] (field body ''gasLimit'')
           = (case WebAssembly_compile rt wasmBuffer of
                None \<Rightarrow> Some (h @ [spread h (state doc)], Inl CompileError)
              | Some md \<Rightarrow>
                  (case instantiate w md (object_literal rt Map.empty) of
                     None \<Rightarrow> None
                   | Some (Inl e) \<Rightarrow> Some (h @ [spread h (state doc)], Inl e)
                   | Some (Inr inst) \<Rightarrow>
                       if num_gt (Fin (of_nat (length wasmBuffer)))
                            (ToNumber (parse_number rt) (field body ''gasLimit''))
                       then Some (h @ [spread h (state doc)],
                                  Inl (Error ''Out of gas (code size cost too high)''))
                       else Some (h @ [spread h (state doc)],
                                  Inr \<lparr> newState = length h,
                                        usedGas = Fin (of_nat (length wasmBuffer)),
                                        result = JNull \<rparr>)))"
proof -
  note route = deploy_reaches_gas_check [OF assms(1-7), of w]
  have refused: "contract_deploy rt sv w usr body
      = (OutOfGasReply (length wasmBuffer) (field body ''gasLimit''), [])"
    if "num_gt (Fin (of_nat (length wasmBuffer))) (ToNumber (parse_number rt) (field body ''gasLimit''))"
    using that by (simp add: route Let_def del: assign_all.simps)
  have wallet_refuses: "contract_deploy rt sv w usr body
      = (TxRefused message, [CreateTransaction userWallet (walletAddress usr) (Fin 0)])"
    if "\<not> num_gt (Fin (of_nat (length wasmBuffer))) (ToNumber (parse_number rt) (field body ''gasLimit''))"
      and "createTransaction sv userWallet (walletAddress usr) (Fin 0) = Inl message" for message
    using that assms(8) by (simp add: route Let_def del: assign_all.simps)
  have pooled: "\<exists>tx. contract_deploy rt sv w usr body
          = (DeployTxCreated (toString_hex (randomBytes w 8) @ toString16 (now w))
               (length wasmBuffer) (field body ''gasLimit'') tx,
             [CreateTransaction userWallet (walletAddress usr) (Fin 0),
              SetTransaction tx, BroadcastTransaction tx])
        \<and> map_of tx ''isDeploy'' = Some (JBool True)
        \<and> map_of tx ''exportedFunctions''
            = Some (JArr (map JStr
                (case WebAssembly_compile rt wasmBuffer of
                   None \<Rightarrow> []
                 | Some md \<Rightarrow>
                     concat (map (\<lambda>(name, e). case e of
                                    ExportedFunction f \<Rightarrow> [name]
                                  | ExportedOther \<Rightarrow> [])
                               (module_exports md)))))"
    if "\<not> num_gt (Fin (of_nat (length wasmBuffer))) (ToNumber (parse_number rt) (field body ''gasLimit''))"
      and "createTransaction sv userWallet (walletAddress usr) (Fin 0) = Inr tx0" for tx0
    using that assms(8)
    by (simp add: route Let_def map_of_assign_all function_export_names_eq
        split: option.split del: assign_all.simps toString16.simps)
  have no_name: "exported_function rt inst JUndefined = None" for inst
    by (simp add: exported_function_def)
  have helper: "runWasmContract rt w h doc JUndefined [] (field body ''gasLimit'')
           = (case WebAssembly_compile rt wasmBuffer of
                None \<Rightarrow> Some (h @ [spread h (state doc)], Inl CompileError)
              | Some md \<Rightarrow>
                  (case instantiate w md (object_literal rt Map.empty) of
                     None \<Rightarrow> None
                   | Some (Inl e) \<Rightarrow> Some (h @ [spread h (state doc)], Inl e)
                   | Some (Inr inst) \<Rightarrow>
                       if num_gt (Fin (of_nat (length wasmBuffer)))
                            (ToNumber (parse_number rt) (field body ''gasLimit''))
                       then Some (h @ [spread h (state doc)],
                                  Inl (Error ''Out of gas (code size cost too high)''))
                       else Some (h @ [spread h (state doc)],
                                  Inr \<lparr> newState = length h,
                                        usedGas = Fin (of_nat (length wasmBuffer)),
                                        result = JNull \<rparr>)))"
    by (simp add: runWasmContract_def alloc_def Let_def assms(9) no_name
        split: option.split sum.split)
  from refused wallet_refuses pooled helper show ?thesis by blast
qed

theorem deploy_gas_is_code_size_witness:
  "contract_deploy example_runtime example_services example_world example_user (deploy_request 4000)
     = (OutOfGasReply 5000 (JNum (Fin 4000)), [])
   \<and> runWasmContract example_runtime example_world [] padded_contract JUndefined [] (JNum (Fin 4000))
     = Some ([[]], Inl (Error ''Out of gas (code size cost too high)''))
   \<and> (\<exists>tx.
        contract_deploy example_runtime example_services example_world example_user (deploy_request 6000)
          = (DeployTxCreated ''abababababababab18bcfe56800'' 5000 (JNum (Fin 6000)) tx,
             [CreateTransaction (example_wallet 1000) ''04abc'' (Fin 0),
              SetTransaction tx, BroadcastTransaction tx])
        \<and> map_of tx ''isDeploy'' = Some (JBool True)
        \<and> map_of tx ''exportedFunctions'' = Some (JArr [JStr ''f'']))
   \<and> runWasmContract example_runtime example_world [] padded_contract JUndefined [] (JNum (Fin 6000))
     = Some ([[]], Inr \<lparr> newState = 0, usedGas = Fin 5000, result = JNull \<rparr>)
   \<and> contract_deploy example_runtime refusing_services example_world example_user (deploy_request 6000)
     = (TxRefused ''Amount exceeds balance'',
        [CreateTransaction (example_wallet 1000) ''04abc'' (Fin 0)])"
proof -
  have low: "num_gt (Fin (of_nat (length padded_module_bytes)))
        (ToNumber (parse_number example_runtime) (field (deploy_request 4000) ''gasLimit''))"
    by (simp add: length_padded_module_bytes example_deploy_fields num_gt_def)
  have high: "\<not> num_gt (Fin (of_nat (length padded_module_bytes)))
        (ToNumber (parse_number example_runtime) (field (deploy_request 6000) ''gasLimit''))"
    by (simp add: length_padded_module_bytes example_deploy_fields num_gt_def)
  have wallet: "example_wallet 1000
      = \<lparr> keyPair = ''c0ffee'', publicKey = walletAddress example_user,
          balance = calculateBalance (node_services 1000 padded_module_bytes)
                      (walletAddress example_user) \<rparr>"
    by (simp add: example_wallet_eq)
  have created: "createTransaction (node_services 1000 padded_module_bytes) (example_wallet 1000)
      (walletAddress example_user) (Fin 0) = Inr [(''id'', JStr ''tx1'')]"
    by (simp add: node_services_def)
  have address: "toString_hex (randomBytes example_world 8) @ toString16 (now example_world)
      = ''abababababababab18bcfe56800''"
    by (simp add: example_world_def example_hex example_clock del: toString16.simps)
  have names: "concat (map (\<lambda>(name, e). case e of ExportedFunction f \<Rightarrow> [name] | ExportedOther \<Rightarrow> [])
      (module_exports padded_module)) = [''f'']"
    by (simp add: padded_module_def)
  have pos: "(0::rat) < 4000" "(0::rat) < 6000" "(400::rat) \<le> 1000" "(600::rat) \<le> 1000"
    by simp_all
  note at4000 = deploy_gas_is_code_size
    [OF example_session example_deploy_fields(1) example_source_nonempty
        example_deploy_checks [OF example_product(7) pos(1) pos(3)]
        example_build wallet example_decode(5),
     of example_world "[]"]
  note at6000 = deploy_gas_is_code_size
    [OF example_session example_deploy_fields(1) example_source_nonempty
        example_deploy_checks [OF example_product(8) pos(2) pos(4)]
        example_build wallet example_decode(5),
     of example_world "[]"]
  from at4000 low have a:
    "contract_deploy example_runtime example_services example_world example_user (deploy_request 4000)
       = (OutOfGasReply 5000 (JNum (Fin 4000)), [])
     \<and> runWasmContract example_runtime example_world [] padded_contract JUndefined [] (JNum (Fin 4000))
       = Some ([[]], Inl (Error ''Out of gas (code size cost too high)''))"
    by (simp add: example_services_def length_padded_module_bytes example_deploy_fields spread_def
        example_state example_compile_bytes example_instantiate_padded)
  from at6000 high created have b:
    "(\<exists>tx.
        contract_deploy example_runtime example_services example_world example_user (deploy_request 6000)
          = (DeployTxCreated ''abababababababab18bcfe56800'' 5000 (JNum (Fin 6000)) tx,
             [CreateTransaction (example_wallet 1000) ''04abc'' (Fin 0),
              SetTransaction tx, BroadcastTransaction tx])
        \<and> map_of tx ''isDeploy'' = Some (JBool True)
        \<and> map_of tx ''exportedFunctions'' = Some (JArr [JStr ''f'']))
     \<and> runWasmContract example_runtime example_world [] padded_contract JUndefined [] (JNum (Fin 6000))
       = Some ([[]], Inr \<lparr> newState = 0, usedGas = Fin 5000, result = JNull \<rparr>)"
    by (simp add: example_services_def length_padded_module_bytes example_deploy_fields spread_def
        example_state example_compile_bytes example_instantiate_padded address names
        example_user_def del: toString16.simps)
  have session': "ephemeralKeys refusing_services (userId example_user) = Some ''c0ffee''"
    by (simp add: refusing_services_def example_services_def example_session)
  have checks':
    "truthy (field (deploy_request 6000) ''gasLimit'')"
    "\<not> num_le (ToNumber (parse_number example_runtime) (field (deploy_request 6000) ''gasLimit''))
         (Fin 0)"
    "\<not> num_lt (calculateBalance refusing_services (walletAddress example_user))
         (num_mul (float_times example_runtime)
            (ToNumber (parse_number example_runtime) (field (deploy_request 6000) ''gasLimit''))
            FIXED_GAS_PRICE)"
    by (simp_all add: refusing_services_def example_services_def example_deploy_fields
        example_balance example_product num_le_def)
  have build': "cargo_build refusing_services example_source = Artifact padded_module_bytes"
    by (simp add: refusing_services_def example_services_def example_build)
  have wallet': "example_wallet 1000
      = \<lparr> keyPair = ''c0ffee'', publicKey = walletAddress example_user,
          balance = calculateBalance refusing_services (walletAddress example_user) \<rparr>"
    by (simp add: refusing_services_def example_services_def example_wallet_eq)
  have refuses: "createTransaction refusing_services (example_wallet 1000)
      (walletAddress example_user) (Fin 0) = Inl ''Amount exceeds balance''"
    by (simp add: refusing_services_def)
  note refused = deploy_gas_is_code_size
    [OF session' example_deploy_fields(1) example_source_nonempty checks' build' wallet'
        example_decode(5), of example_world "[]"]
  from refused high refuses have c:
    "contract_deploy example_runtime refusing_services example_world example_user (deploy_request 6000)
       = (TxRefused ''Amount exceeds balance'',
          [CreateTransaction (example_wallet 1000) ''04abc'' (Fin 0)])"
    by (simp add: example_user_def)
  from a b c show ?thesis by blast
qed

text \<open>
  C3, as stated, fails: the deployment of the 47-byte module that imports \<open>now\<close> from
  \<open>env\<close> is executed with gasLimit 1000, which its length does not exceed, and does
  not succeed: the import object has nothing under \<open>env\<close> and instantiation throws a
  TypeError.
\<close>

theorem deploy_within_gas_fails_counterexample:
  "runWasmContract example_runtime example_world [] clock_contract JUndefined [] (JNum (Fin 1000))
   = Some ([[]], Inl TypeError)"
  using runWasmContract_not_instantiated
    [OF example_compile_bytes(3) [folded example_decode(3)] example_instantiate_clock]
  by (simp add: example_state spread_def)

text \<open>
  C9. When the caller's balance, computed from the chain, is less than gasLimit times
  the fixed gas price 0.1, the deploy route and the interact route both answer with an
  error (status 400 or 401) and do nothing else: no transaction is created, signed,
  pooled or broadcast. The product is the rounded product of the two doubles, as the
  routes compute it.
\<close>

theorem fee_precondition:
  assumes "num_lt (calculateBalance sv (walletAddress usr))
             (num_mul (float_times rt) (ToNumber (parse_number rt) (field body ''gasLimit''))
                FIXED_GAS_PRICE)"
  shows "snd (contract_deploy rt sv w usr body) = []
       \<and> fst (contract_deploy rt sv w usr body)
           \<in> {ReLoginRequired, NoRustCode, InvalidGasLimit,
               NeedAtLeast (num_mul (float_times rt) (ToNumber (parse_number rt) (field body ''gasLimit''))
                              FIXED_GAS_PRICE)}
       \<and> status (fst (contract_deploy rt sv w usr body)) \<in> {400, 401}
       \<and> snd (contract_interact rt sv usr body) = []
       \<and> fst (contract_interact rt sv usr body)
           \<in> {ReLoginRequired, ContractAndFunctionRequired, GasLimitRequired,
               NeedAtLeast (num_mul (float_times rt) (ToNumber (parse_number rt) (field body ''gasLimit''))
                              FIXED_GAS_PRICE)}
       \<and> status (fst (contract_interact rt sv usr body)) \<in> {400, 401}"
proof -
  note d = fee_deploy [OF assms, of w]
  note i = fee_interact [OF assms]
  have "status (fst (contract_deploy rt sv w usr body)) \<in> {400, 401}"
    using d by auto
  moreover have "status (fst (contract_interact rt sv usr body)) \<in> {400, 401}"
    using i by auto
  ultimately show ?thesis
    using d i by blast
qed

theorem fee_precondition_witness:
  "contract_deploy example_runtime example_services example_world example_user (deploy_request 20000)
     = (NeedAtLeast (Fin 2000), [])
   \<and> contract_interact example_runtime example_services example_user (interact_request (JArr []) 20000)
     = (NeedAtLeast (Fin 2000), [])
   \<and> contract_deploy example_runtime (node_services (34 / 10) answer_module_bytes) example_world
        example_user (deploy_request 34)
     = (NeedAtLeast (Fin (34000000000000004 / 10000000000000000)), [])"
proof -
  have short: "num_lt (calculateBalance example_services (walletAddress example_user))
      (num_mul (float_times example_runtime) (ToNumber (parse_number example_runtime)
         (field (deploy_request 20000) ''gasLimit'')) FIXED_GAS_PRICE)"
    by (simp add: example_services_def example_balance example_deploy_fields example_product)
  have short': "num_lt (calculateBalance example_services (walletAddress example_user))
      (num_mul (float_times example_runtime) (ToNumber (parse_number example_runtime)
         (field (interact_request (JArr []) 20000) ''gasLimit'')) FIXED_GAS_PRICE)"
    by (simp add: example_services_def example_balance example_interact_fields example_product)
  have rounded: "num_lt (calculateBalance (node_services (34 / 10) answer_module_bytes)
         (walletAddress example_user))
      (num_mul (float_times example_runtime) (ToNumber (parse_number example_runtime)
         (field (deploy_request 34) ''gasLimit'')) FIXED_GAS_PRICE)"
    by (simp add: example_balance example_deploy_fields example_product)
  have d: "contract_deploy example_runtime example_services example_world example_user
        (deploy_request 20000) = (NeedAtLeast (Fin 2000), [])"
    using fee_precondition [OF short, of example_world]
    by (simp add: example_services_def example_deploy_refused [OF example_product(9)])
  have i: "contract_interact example_runtime example_services example_user
        (interact_request (JArr []) 20000) = (NeedAtLeast (Fin 2000), [])"
    using fee_precondition [OF short', of example_world]
    by (simp add: example_services_def example_interact_refused [OF example_product(9)])
  have r: "contract_deploy example_runtime (node_services (34 / 10) answer_module_bytes) example_world
        example_user (deploy_request 34)
     = (NeedAtLeast (Fin (34000000000000004 / 10000000000000000)), [])"
    using fee_precondition [OF rounded, of example_world]
    by (simp add: example_deploy_refused [OF example_product(1)])
  from d i r show ?thesis by simp
qed

text \<open>
  C10. The functionArgs field of every transaction that the interact route pools is an
  array of numbers, none of them NaN: the empty array when the request's functionArgs is
  no array, and otherwise each element \<open>v\<close> replaced by \<open>Number(v)\<close>, or by 0 when
  that is NaN or zero. And the route does pool such a transaction, and broadcasts it, for
  every request that passes its checks and for which the wallet builds a transaction.
\<close>

theorem interact_functionArgs_numbers:
  assumes "ns = (case field body ''functionArgs'' of
                   JArr vs \<Rightarrow>
                     map (\<lambda>v. let n = ToNumber (parse_number rt) v
                              in if n = NaN \<or> n = Fin 0 then Fin 0 else n) vs
                 | _ \<Rightarrow> [])"
    and "userWallet = \<lparr> keyPair = eph, publicKey = walletAddress usr,
                         balance = calculateBalance sv (walletAddress usr) \<rparr>"
  shows "NaN \<notin> set ns
       \<and> (\<forall>tx. SetTransaction tx \<in> set (snd (contract_interact rt sv usr body))
             \<longrightarrow> map_of tx ''type'' = Some (JStr ''SMART_CONTRACT'')
                 \<and> map_of tx ''functionArgs'' = Some (JArr (map JNum ns)))
       \<and> (ephemeralKeys sv (userId usr) = Some eph
           \<and> truthy (field body ''contractAddress'') \<and> truthy (field body ''functionName'')
           \<and> truthy (field body ''gasLimit'')
           \<and> \<not> num_le (ToNumber (parse_number rt) (field body ''gasLimit'')) (Fin 0)
           \<and> \<not> num_lt (calculateBalance sv (walletAddress usr))
                  (num_mul (float_times rt) (ToNumber (parse_number rt) (field body ''gasLimit''))
                     FIXED_GAS_PRICE)
           \<and> \<not> num_lt (ToNumber (parse_number rt) (field body ''gasLimit'')) (Fin 200)
           \<and> createTransaction sv userWallet (walletAddress usr) (Fin 0) = Inr tx0
           \<longrightarrow> (\<exists>tx. contract_interact rt sv usr body
                        = (InteractTxCreated 200 (field body ''gasLimit'') tx,
                           [CreateTransaction userWallet (walletAddress usr) (Fin 0),
                            SetTransaction tx, BroadcastTransaction tx])
                      \<and> map_of tx ''type'' = Some (JStr ''SMART_CONTRACT'')
                      \<and> map_of tx ''functionArgs'' = Some (JArr (map JNum ns))))"
proof -
  let ?coerce = "\<lambda>v. let n = ToNumber (parse_number rt) v in if n = NaN \<or> n = Fin 0 then Fin 0 else n"
  have "map (Number_or_0 rt) vs = map JNum (map ?coerce vs)" for vs
    by (simp add: Number_or_0_eq)
  then have coerced:
    "(case field body ''functionArgs'' of JArr vs \<Rightarrow> map (Number_or_0 rt) vs | _ \<Rightarrow> []) = map JNum ns"
    by (simp add: assms(1) split: jsval.split)
  have no_nan: "NaN \<notin> set ns"
    by (auto simp: assms(1) Let_def split: jsval.split if_splits)
  have any_pooled: "map_of tx ''type'' = Some (JStr ''SMART_CONTRACT'')
      \<and> map_of tx ''functionArgs'' = Some (JArr (map JNum ns))"
    if "SetTransaction tx \<in> set (snd (contract_interact rt sv usr body))" for tx
    using interact_pooled [OF that] coerced by simp
  have does_pool: "\<exists>tx. contract_interact rt sv usr body
          = (InteractTxCreated 200 (field body ''gasLimit'') tx,
             [CreateTransaction userWallet (walletAddress usr) (Fin 0),
              SetTransaction tx, BroadcastTransaction tx])
        \<and> map_of tx ''type'' = Some (JStr ''SMART_CONTRACT'')
        \<and> map_of tx ''functionArgs'' = Some (JArr (map JNum ns))"
    if "ephemeralKeys sv (userId usr) = Some eph"
      and "truthy (field body ''contractAddress'')" and "truthy (field body ''functionName'')"
      and "truthy (field body ''gasLimit'')"
      and "\<not> num_le (ToNumber (parse_number rt) (field body ''gasLimit'')) (Fin 0)"
      and "\<not> num_lt (calculateBalance sv (walletAddress usr))
             (num_mul (float_times rt) (ToNumber (parse_number rt) (field body ''gasLimit''))
                FIXED_GAS_PRICE)"
      and "\<not> num_lt (ToNumber (parse_number rt) (field body ''gasLimit'')) (Fin 200)"
      and "createTransaction sv userWallet (walletAddress usr) (Fin 0) = Inr tx0"
  proof -
    have "(case field body ''functionArgs'' of JArr vs \<Rightarrow> JArr (map (Number_or_0 rt) vs) | _ \<Rightarrow> JArr [])
        = JArr (map JNum ns)"
      using coerced by (simp split: jsval.splits)
    then show ?thesis
      using that(8) assms(2)
      by (simp add: interact_reaches_transaction [OF that(1-7)] Let_def map_of_assign_all
          del: assign_all.simps)
  qed
  from no_nan any_pooled does_pool show ?thesis by blast
qed

theorem interact_functionArgs_numbers_witness:
  "contract_interact example_runtime example_services example_user (interact_request example_args 300)
     = (InteractTxCreated 200 (JNum (Fin 300)) (example_interact_tx 300),
        [CreateTransaction (example_wallet 1000) ''04abc'' (Fin 0),
         SetTransaction (example_interact_tx 300),
         BroadcastTransaction (example_interact_tx 300)])
   \<and> map_of (example_interact_tx 300) ''type'' = Some (JStr ''SMART_CONTRACT'')
   \<and> map_of (example_interact_tx 300) ''functionArgs''
       = Some (JArr (map JNum [Fin 7, Fin 0, Fin 0, Fin 1, Fin 0]))"
proof -
  have run: "contract_interact example_runtime example_services example_user
        (interact_request example_args 300)
     = (InteractTxCreated 200 (JNum (Fin 300)) (example_interact_tx 300),
        [CreateTransaction (example_wallet 1000) ''04abc'' (Fin 0),
         SetTransaction (example_interact_tx 300),
         BroadcastTransaction (example_interact_tx 300)])"
    unfolding example_services_def
    by (rule example_interact_run [OF example_product(5)]) simp_all
  have coerced: "[Fin 7, Fin 0, Fin 0, Fin 1, Fin 0]
      = (case field (interact_request example_args 300) ''functionArgs'' of
            JArr vs \<Rightarrow>
              map (\<lambda>v. let n = ToNumber (parse_number example_runtime) v
                       in if n = NaN \<or> n = Fin 0 then Fin 0 else n) vs
          | _ \<Rightarrow> [])"
    by (simp add: example_interact_fields example_args_def example_runtime_def)
  have wallet: "example_wallet 1000
      = \<lparr> keyPair = ''c0ffee'', publicKey = walletAddress example_user,
          balance = calculateBalance example_services (walletAddress example_user) \<rparr>"
    by (simp add: example_services_def example_wallet_eq)
  have checks:
    "truthy (field (interact_request example_args 300) ''contractAddress'')"
    "truthy (field (interact_request example_args 300) ''functionName'')"
    "truthy (field (interact_request example_args 300) ''gasLimit'')"
    "\<not> num_le (ToNumber (parse_number example_runtime)
          (field (interact_request example_args 300) ''gasLimit'')) (Fin 0)"
    "\<not> num_lt (calculateBalance example_services (walletAddress example_user))
         (num_mul (float_times example_runtime)
            (ToNumber (parse_number example_runtime)
               (field (interact_request example_args 300) ''gasLimit''))
            FIXED_GAS_PRICE)"
    by (simp_all add: example_services_def example_interact_fields example_balance example_product
        num_le_def)
  have enough: "\<not> num_lt (ToNumber (parse_number example_runtime)
      (field (interact_request example_args 300) ''gasLimit'')) (Fin 200)"
    by (simp add: example_interact_fields)
  have session: "ephemeralKeys example_services (userId example_user) = Some ''c0ffee''"
    by (simp add: example_services_def example_session)
  have created: "createTransaction example_services (example_wallet 1000)
      (walletAddress example_user) (Fin 0) = Inr [(''id'', JStr ''tx1'')]"
    by (simp add: example_services_def node_services_def)
  have "\<exists>tx. contract_interact example_runtime example_services example_user
                (interact_request example_args 300)
          = (InteractTxCreated 200 (field (interact_request example_args 300) ''gasLimit'') tx,
             [CreateTransaction (example_wallet 1000) (walletAddress example_user) (Fin 0),
              SetTransaction tx, BroadcastTransaction tx])
        \<and> map_of tx ''type'' = Some (JStr ''SMART_CONTRACT'')
        \<and> map_of tx ''functionArgs'' = Some (JArr (map JNum [Fin 7, Fin 0, Fin 0, Fin 1, Fin 0]))"
    using interact_functionArgs_numbers [OF coerced wallet]
      session checks enough created
    by blast
  then show ?thesis
    unfolding run by auto
qed

end
